theory Spec2Isabelle
  imports Complex_Main
begin

section \<open>Data model (types.ts)\<close>

text \<open>
  A finite JavaScript \<open>number\<close> is carried as a real: the timestamps, scores and
  durations below are only stored, compared for equality and handed on, never computed
  with. Where the code treats a number that is not finite differently, the value has a
  type of its own (\<open>time_value\<close> for a seek time, \<open>duration_value\<close> for the player's
  duration).
\<close>

type_synonym number = real

datatype ViolationSeverity = Critical | High | Medium | Low | Info

text \<open>
  \<open>thumbnailDataUrl?: string | null\<close> has three states: the property is absent
  (\<open>None\<close>, what \<open>hasOwnProperty\<close> tests), it is \<open>null\<close> (\<open>Some None\<close>), or it is a
  data URL (\<open>Some (Some url)\<close>).
\<close>

record DetectedViolation =
  description :: string
  startTimeSeconds :: number
  endTimeSeconds :: number
  durationSeconds :: number
  severity :: ViolationSeverity
  onScreenStartTime :: "string option"
  onScreenEndTime :: "string option"
  thumbnailDataUrl :: "string option option"

datatype ReportStatus = PendingReview | Reviewed | ActionRequired | Closed

text \<open>
  \<open>Omit<VideoAnalysisReport, 'id'>\<close> is the record \<open>ReportData\<close>; the report itself
  extends it with the identifier (the field \<open>id\<close> of the source, named \<open>report_id\<close> here).
\<close>

record ReportData =
  videoId :: string
  videoFileName :: string
  videoFileUri :: "string option"
  analysisDateTime :: string
  jsaContext :: "string option"
  userPrompt :: "string option"
  geminiRawResponse :: string
  summary :: "string option"
  safetyScore :: "number option"
  violations :: "DetectedViolation list"
  positiveObservations :: "string list option"
  operatorComments :: "string option"
  reportStatus :: ReportStatus
  videoDurationSeconds :: "number option"

record VideoAnalysisReport = ReportData +
  report_id :: string

text \<open>
  \<open>Partial<VideoAnalysisReport>\<close>: every property may be absent (\<open>None\<close>). A property
  that is optional in the report may also be present with the value \<open>undefined\<close>
  (\<open>Some None\<close>), which the object spread copies like any other value.
\<close>

record ReportUpdates =
  u_id :: "string option"
  u_videoId :: "string option"
  u_videoFileName :: "string option"
  u_videoFileUri :: "string option option"
  u_analysisDateTime :: "string option"
  u_jsaContext :: "string option option"
  u_userPrompt :: "string option option"
  u_geminiRawResponse :: "string option"
  u_summary :: "string option option"
  u_safetyScore :: "number option option"
  u_violations :: "DetectedViolation list option"
  u_positiveObservations :: "string list option option"
  u_operatorComments :: "string option option"
  u_reportStatus :: "ReportStatus option"
  u_videoDurationSeconds :: "number option option"

section \<open>The report store (services/apiService.ts)\<close>

text \<open>
  \<open>mockVideoAnalysisReports\<close> is a module-level array; every operation takes the array
  and returns the new one. The two clock reads of \<open>addVideoAnalysisReport\<close>,
  \<open>Date.now()\<close> and \<open>new Date().toISOString()\<close>, are inputs.
\<close>

type_synonym store = "VideoAnalysisReport list"

record clock =
  dateNow :: nat
  isoNow :: string

fun string_of_nat :: "nat \<Rightarrow> string" where
  "string_of_nat n =
     (if n < 10 then [''0123456789'' ! n]
      else string_of_nat (n div 10) @ [''0123456789'' ! (n mod 10)])"

declare string_of_nat.simps [simp del]

definition new_id :: "clock \<Rightarrow> string" where
  "new_id clk = ''var-'' @ string_of_nat (dateNow clk)"

definition addVideoAnalysisReport ::
  "clock \<Rightarrow> ReportData \<Rightarrow> store \<Rightarrow> VideoAnalysisReport \<times> store" where
  "addVideoAnalysisReport clk reportData st =
     (let newReport =
        \<lparr> videoId = videoId reportData,
          videoFileName = videoFileName reportData,
          videoFileUri = videoFileUri reportData,
          analysisDateTime = isoNow clk,
          jsaContext = jsaContext reportData,
          userPrompt = userPrompt reportData,
          geminiRawResponse = geminiRawResponse reportData,
          summary = summary reportData,
          safetyScore = safetyScore reportData,
          violations = violations reportData,
          positiveObservations = positiveObservations reportData,
          operatorComments = operatorComments reportData,
          reportStatus = reportStatus reportData,
          videoDurationSeconds = videoDurationSeconds reportData,
          report_id = new_id clk \<rparr>
      in (newReport, st @ [newReport]))"

definition getVideoAnalysisReportById :: "string \<Rightarrow> store \<Rightarrow> VideoAnalysisReport option" where
  "getVideoAnalysisReportById i st = List.find (\<lambda>r. report_id r = i) st"

text \<open>\<open>Array.prototype.findIndex\<close>: the first index whose element passes, \<open>None\<close> for -1.\<close>

fun findIndex :: "('a \<Rightarrow> bool) \<Rightarrow> 'a list \<Rightarrow> nat option" where
  "findIndex P [] = None"
| "findIndex P (x # xs) = (if P x then Some 0 else map_option Suc (findIndex P xs))"

text \<open>\<open>{ ...originalReport, ...updates }\<close>: a property present in the updates wins.\<close>

definition or_original :: "'a option \<Rightarrow> 'a \<Rightarrow> 'a" where
  "or_original u orig = (case u of None \<Rightarrow> orig | Some v \<Rightarrow> v)"

definition spread_updates :: "VideoAnalysisReport \<Rightarrow> ReportUpdates \<Rightarrow> VideoAnalysisReport" where
  "spread_updates originalReport updates =
     \<lparr> videoId = or_original (u_videoId updates) (videoId originalReport),
       videoFileName = or_original (u_videoFileName updates) (videoFileName originalReport),
       videoFileUri = or_original (u_videoFileUri updates) (videoFileUri originalReport),
       analysisDateTime = or_original (u_analysisDateTime updates) (analysisDateTime originalReport),
       jsaContext = or_original (u_jsaContext updates) (jsaContext originalReport),
       userPrompt = or_original (u_userPrompt updates) (userPrompt originalReport),
       geminiRawResponse =
         or_original (u_geminiRawResponse updates) (geminiRawResponse originalReport),
       summary = or_original (u_summary updates) (summary originalReport),
       safetyScore = or_original (u_safetyScore updates) (safetyScore originalReport),
       violations = or_original (u_violations updates) (violations originalReport),
       positiveObservations =
         or_original (u_positiveObservations updates) (positiveObservations originalReport),
       operatorComments = or_original (u_operatorComments updates) (operatorComments originalReport),
       reportStatus = or_original (u_reportStatus updates) (reportStatus originalReport),
       videoDurationSeconds =
         or_original (u_videoDurationSeconds updates) (videoDurationSeconds originalReport),
       report_id = or_original (u_id updates) (report_id originalReport) \<rparr>"

text \<open>
  The merged report, property by property: a property present in the updates takes the
  value given there, an absent one keeps the value of the stored report.
\<close>

definition overwritten_by :: "VideoAnalysisReport \<Rightarrow> ReportUpdates \<Rightarrow> VideoAnalysisReport \<Rightarrow> bool"
  where
  "overwritten_by r u r' \<longleftrightarrow>
     report_id r' = (case u_id u of None \<Rightarrow> report_id r | Some v \<Rightarrow> v)
     \<and> videoId r' = (case u_videoId u of None \<Rightarrow> videoId r | Some v \<Rightarrow> v)
     \<and> videoFileName r' = (case u_videoFileName u of None \<Rightarrow> videoFileName r | Some v \<Rightarrow> v)
     \<and> videoFileUri r' = (case u_videoFileUri u of None \<Rightarrow> videoFileUri r | Some v \<Rightarrow> v)
     \<and> analysisDateTime r'
         = (case u_analysisDateTime u of None \<Rightarrow> analysisDateTime r | Some v \<Rightarrow> v)
     \<and> jsaContext r' = (case u_jsaContext u of None \<Rightarrow> jsaContext r | Some v \<Rightarrow> v)
     \<and> userPrompt r' = (case u_userPrompt u of None \<Rightarrow> userPrompt r | Some v \<Rightarrow> v)
     \<and> geminiRawResponse r'
         = (case u_geminiRawResponse u of None \<Rightarrow> geminiRawResponse r | Some v \<Rightarrow> v)
     \<and> summary r' = (case u_summary u of None \<Rightarrow> summary r | Some v \<Rightarrow> v)
     \<and> safetyScore r' = (case u_safetyScore u of None \<Rightarrow> safetyScore r | Some v \<Rightarrow> v)
     \<and> violations r' = (case u_violations u of None \<Rightarrow> violations r | Some v \<Rightarrow> v)
     \<and> positiveObservations r'
         = (case u_positiveObservations u of None \<Rightarrow> positiveObservations r | Some v \<Rightarrow> v)
     \<and> operatorComments r'
         = (case u_operatorComments u of None \<Rightarrow> operatorComments r | Some v \<Rightarrow> v)
     \<and> reportStatus r' = (case u_reportStatus u of None \<Rightarrow> reportStatus r | Some v \<Rightarrow> v)
     \<and> videoDurationSeconds r'
         = (case u_videoDurationSeconds u of None \<Rightarrow> videoDurationSeconds r | Some v \<Rightarrow> v)"

definition updateVideoAnalysisReport ::
  "string \<Rightarrow> ReportUpdates \<Rightarrow> store \<Rightarrow> (string + VideoAnalysisReport) \<times> store" where
  "updateVideoAnalysisReport i updates st =
     (case findIndex (\<lambda>r. report_id r = i) st of
        None \<Rightarrow> (Inl ''Report not found for update.'', st)
      | Some reportIndex \<Rightarrow>
          (let updated = spread_updates (st ! reportIndex) updates
           in (Inr updated, st[reportIndex := updated])))"

section \<open>Parsing the model's reply (App.tsx, services/geminiService.ts)\<close>

text \<open>
  \<open>ParsedAnalysisResult\<close> as the component reads it. The interface declares
  \<open>violations\<close> as required, but the value comes from an unchecked \<open>JSON.parse\<close> and the
  code tests \<open>!analysisResult.violations\<close> before every use, so the property may be absent
  here (\<open>None\<close>); when present it is an array.
\<close>

record ParsedAnalysisResult =
  res_summary :: "string option"
  res_safetyScore :: "number option"
  res_violations :: "DetectedViolation list option"
  res_positiveObservations :: "string list option"
  res_error :: "string option"
  res_rawResponse :: "string option"

text \<open>
  What \<open>JSON.parse(geminiJsonString)\<close> did: it threw a \<open>SyntaxError\<close>, it returned
  \<open>null\<close>, or it returned another value, seen through the properties of the interface
  (a property the value does not have reads \<open>undefined\<close>, also on a number, a string or an
  array). The call is a built-in of the language; its outcome is an input of the model.
\<close>

datatype JSON_parse = SyntaxError | JsonNull | JsonValue ParsedAnalysisResult

text \<open>JavaScript truthiness of an optional string: absent and the empty string are falsy.\<close>

definition truthy :: "string option \<Rightarrow> bool" where
  "truthy s = (case s of None \<Rightarrow> False | Some t \<Rightarrow> t \<noteq> [])"

definition parse_failure_result :: "string \<Rightarrow> ParsedAnalysisResult" where
  "parse_failure_result geminiJsonString =
     \<lparr> res_summary = None, res_safetyScore = None, res_violations = Some [],
       res_positiveObservations = None,
       res_error = Some ''Failed to parse analysis result.'',
       res_rawResponse = Some geminiJsonString \<rparr>"

text \<open>
  The inner \<open>try\<close>/\<open>catch\<close> of \<open>handleAnalyzeVideo\<close>; the result is the value passed to
  \<open>setAnalysisResult\<close>. Reading \<open>parsed.error\<close> on \<open>null\<close> throws a \<open>TypeError\<close> inside the
  same \<open>try\<close>, so \<open>null\<close> ends in the \<open>catch\<close> as a syntax error does.
  \<open>{ violations: [], ...parsed }\<close> keeps the violations of \<open>parsed\<close> when it has the property.
\<close>

definition parseGeminiJson :: "JSON_parse \<Rightarrow> string \<Rightarrow> ParsedAnalysisResult" where
  "parseGeminiJson decoded geminiJsonString =
     (case decoded of
        SyntaxError \<Rightarrow> parse_failure_result geminiJsonString
      | JsonNull \<Rightarrow> parse_failure_result geminiJsonString
      | JsonValue parsed \<Rightarrow>
          if truthy (res_error parsed)
          then parsed\<lparr> res_violations :=
                 (case res_violations parsed of None \<Rightarrow> Some [] | Some vs \<Rightarrow> Some vs) \<rparr>
          else parsed)"

text \<open>
  The required property of the interface: a decoded value has the expected shape only if
  it carries a \<open>violations\<close> array.
\<close>

definition decodes_as_schema :: "JSON_parse \<Rightarrow> bool" where
  "decodes_as_schema decoded =
     (case decoded of
        SyntaxError \<Rightarrow> False
      | JsonNull \<Rightarrow> False
      | JsonValue parsed \<Rightarrow> res_violations parsed \<noteq> None)"

text \<open>
  The object \<open>analyzeUploadedVideo\<close> serialises in place of a reply that is not valid JSON;
  \<open>responseText\<close> is \<open>response.text\<close>, the reply before trimming and fence removal.
\<close>

definition invalid_json_fallback :: "string \<Rightarrow> ParsedAnalysisResult" where
  "invalid_json_fallback responseText =
     \<lparr> res_summary = Some ''Failed to parse analysis.'', res_safetyScore = Some 0,
       res_violations = Some [], res_positiveObservations = Some [],
       res_error = Some ''Gemini response was not valid JSON.'',
       res_rawResponse = Some responseText \<rparr>"

section \<open>Frame capture (App.tsx, captureFrameAtTime)\<close>

text \<open>
  The properties of the video element the function reads or writes. \<open>paused\<close> and
  \<open>currentTime\<close> are written by the function; every other property is read once per call
  and stands for the value the browser reports at that read (\<open>videoWidth\<close> and
  \<open>videoHeight\<close> in the animation frame after \<open>seeked\<close>, \<open>isConnected\<close> at the exit).
\<close>

record HTMLVideoElement =
  readyState :: nat
  currentSrc :: string
  paused :: bool
  isConnected :: bool
  videoWidth :: nat
  videoHeight :: nat
  currentTime :: number

definition HAVE_NOTHING :: nat where "HAVE_NOTHING = 0"
definition HAVE_METADATA :: nat where "HAVE_METADATA = 1"

text \<open>
  What the browser does during one call: whether \<open>loadedmetadata\<close> fires before the
  5 s timer, which of \<open>seeked\<close>, \<open>error\<close> and the 7 s timer comes first after the seek,
  whether \<open>getContext('2d')\<close> gives a context, what \<open>toDataURL\<close> returns, and whether a
  \<open>play()\<close> request is honoured (a refused request rejects, and the code only logs it).
\<close>

datatype seek_signal = Seeked | MediaError | SeekTimeout

record browser =
  loadedmetadata :: bool
  seekSignal :: seek_signal
  context2d :: bool
  toDataURL :: string
  playAllowed :: bool

datatype capture_outcome = Resolved "string option" | Rejected string

definition pause :: "HTMLVideoElement \<Rightarrow> HTMLVideoElement" where
  "pause v = v\<lparr> paused := True \<rparr>"

definition play :: "browser \<Rightarrow> HTMLVideoElement \<Rightarrow> HTMLVideoElement" where
  "play b v = (if playAllowed b then v\<lparr> paused := False \<rparr> else v)"

text \<open>\<open>if (!wasPaused && videoElement.isConnected) videoElement.play().catch(...)\<close>\<close>

definition resume_playback :: "browser \<Rightarrow> bool \<Rightarrow> HTMLVideoElement \<Rightarrow> HTMLVideoElement" where
  "resume_playback b wasPaused v = (if \<not> wasPaused \<and> isConnected v then play b v else v)"

text \<open>
  The synchronous part of \<open>proceedWithCapture\<close> for a finite \<open>timeSeconds\<close>: remember
  \<open>paused\<close>, pause a playing video, register the listeners and assign \<open>currentTime\<close>.
  The element it returns is the one the seek runs on. The assignment of a time that is
  not finite throws instead: that case is \<open>issue_seek_non_finite\<close> below.
\<close>

definition issue_seek :: "HTMLVideoElement \<Rightarrow> number \<Rightarrow> bool \<times> HTMLVideoElement" where
  "issue_seek v timeSeconds =
     (let wasPaused = paused v;
          v1 = (if \<not> wasPaused then pause v else v)
      in (wasPaused, v1\<lparr> currentTime := timeSeconds \<rparr>))"

text \<open>
  A seek time that is not a finite number (\<open>NaN\<close> or an infinity, which is also what an
  absent or non-numeric \<open>startTimeSeconds\<close> of the decoded reply converts to) makes the
  assignment \<open>videoElement.currentTime = timeSeconds\<close> throw a \<open>TypeError\<close>.
\<close>

datatype time_value = FiniteTime number | NonFiniteTime

text \<open>
  The synchronous part of \<open>proceedWithCapture\<close> at such a time, up to the throwing
  assignment: a playing video has been paused and the two listeners registered;
  \<open>currentTime\<close> is unchanged, the seek timer is never started and no handler of the
  call runs, so nothing resumes playback.
\<close>

definition issue_seek_non_finite :: "HTMLVideoElement \<Rightarrow> bool \<times> HTMLVideoElement" where
  "issue_seek_non_finite v =
     (let wasPaused = paused v;
          v1 = (if \<not> wasPaused then pause v else v)
      in (wasPaused, v1))"

text \<open>
  The three handlers: \<open>onSeeked\<close> with its animation-frame callback, \<open>onErrorCapture\<close>
  and the seek timer. The animation-frame callback is taken to run, and \<open>drawImage\<close> and
  \<open>toDataURL\<close> not to throw (the player shows a blob of the selected file).
\<close>

definition settle_seek ::
  "browser \<Rightarrow> bool \<Rightarrow> HTMLVideoElement \<Rightarrow> capture_outcome \<times> HTMLVideoElement" where
  "settle_seek b wasPaused v =
     (case seekSignal b of
        Seeked \<Rightarrow>
          if videoWidth v = 0 \<or> videoHeight v = 0
          then (Resolved None, resume_playback b wasPaused v)
          else (if context2d b then Resolved (Some (toDataURL b)) else Resolved None,
                resume_playback b wasPaused v)
      | MediaError \<Rightarrow>
          (Rejected ''Video seeking error during frame capture.'', resume_playback b wasPaused v)
      | SeekTimeout \<Rightarrow>
          (Rejected ''Timeout during frame capture seeking.'', resume_playback b wasPaused v))"

definition proceedWithCapture ::
  "browser \<Rightarrow> HTMLVideoElement \<Rightarrow> number \<Rightarrow> capture_outcome \<times> HTMLVideoElement" where
  "proceedWithCapture b v timeSeconds =
     (case issue_seek v timeSeconds of (wasPaused, v') \<Rightarrow> settle_seek b wasPaused v')"

text \<open>The element may be missing (\<open>!videoElement\<close>): \<open>None\<close>.\<close>

definition captureFrameAtTime ::
  "browser \<Rightarrow> HTMLVideoElement option \<Rightarrow> number \<Rightarrow> capture_outcome \<times> HTMLVideoElement option"
  where
  "captureFrameAtTime b videoElement timeSeconds =
     (case videoElement of
        None \<Rightarrow> (Resolved None, None)
      | Some v \<Rightarrow>
          if readyState v < HAVE_METADATA then
            (if readyState v = HAVE_NOTHING \<and> currentSrc v = [] then (Resolved None, Some v)
             else if loadedmetadata b then
               (case proceedWithCapture b v timeSeconds of (r, v') \<Rightarrow> (r, Some v'))
             else (Resolved None, Some v))
          else (case proceedWithCapture b v timeSeconds of (r, v') \<Rightarrow> (r, Some v')))"

text \<open>
  \<open>captureFrameAtTime\<close> above is the capture at a finite time. This is the whole
  function, on any seek time; \<open>None\<close> is a promise the call leaves unsettled.
  Called from the promise executor, the throwing \<open>proceedWithCapture\<close> rejects the
  promise with the \<open>TypeError\<close>; called from the \<open>loadedmetadata\<close> listener, the
  exception leaves the listener uncaught and the promise is neither resolved nor
  rejected.
\<close>

definition captureFrameAtAnyTime ::
  "browser \<Rightarrow> HTMLVideoElement option \<Rightarrow> time_value \<Rightarrow>
     capture_outcome option \<times> HTMLVideoElement option" where
  "captureFrameAtAnyTime b videoElement timeSeconds =
     (case timeSeconds of
        FiniteTime t \<Rightarrow>
          (case captureFrameAtTime b videoElement t of (r, v') \<Rightarrow> (Some r, v'))
      | NonFiniteTime \<Rightarrow>
          (case videoElement of
             None \<Rightarrow> (Some (Resolved None), None)
           | Some v \<Rightarrow>
               if readyState v < HAVE_METADATA then
                 (if readyState v = HAVE_NOTHING \<and> currentSrc v = []
                  then (Some (Resolved None), Some v)
                  else if loadedmetadata b then (None, Some (snd (issue_seek_non_finite v)))
                  else (Some (Resolved None), Some v))
               else (Some (Rejected ''TypeError''), Some (snd (issue_seek_non_finite v)))))"

section \<open>Binding thumbnails to violations (App.tsx, generateAllThumbnails)\<close>

text \<open>
  The loop awaits one capture at a time, so the captures are calls in sequence on a
  player that each call may change. \<open>capture\<close> is any such call; the loop carries
  \<open>thumbnailsGeneratedCount\<close>, the player, and a log of the times at which it invoked
  \<open>capture\<close>, kept only to state the order of the calls.
\<close>

record 'w loop_state =
  thumbnailsGeneratedCount :: nat
  captureLog :: "number list"
  player :: 'w

definition violationsWithoutThumbnails :: "DetectedViolation list \<Rightarrow> DetectedViolation list" where
  "violationsWithoutThumbnails vs = filter (\<lambda>v. thumbnailDataUrl v = None) vs"

text \<open>
  One pass of the loop body for \<open>updatedViolations[i]\<close>. A rejection is caught inside the
  body and stores \<open>null\<close>; \<open>if (thumbnailUrl)\<close> counts only a non-empty string.
\<close>

definition bind_thumbnail ::
  "('w \<Rightarrow> number \<Rightarrow> capture_outcome \<times> 'w) \<Rightarrow> DetectedViolation \<Rightarrow> 'w loop_state \<Rightarrow>
     DetectedViolation \<times> 'w loop_state" where
  "bind_thumbnail capture violation s =
     (if thumbnailDataUrl violation = None then
        (case capture (player s) (startTimeSeconds violation) of
           (Resolved thumbnailUrl, w) \<Rightarrow>
             (violation\<lparr> thumbnailDataUrl := Some thumbnailUrl \<rparr>,
              \<lparr> thumbnailsGeneratedCount =
                  (if truthy thumbnailUrl then Suc (thumbnailsGeneratedCount s)
                   else thumbnailsGeneratedCount s),
                captureLog = captureLog s @ [startTimeSeconds violation],
                player = w \<rparr>)
         | (Rejected thumbError, w) \<Rightarrow>
             (violation\<lparr> thumbnailDataUrl := Some None \<rparr>,
              \<lparr> thumbnailsGeneratedCount = thumbnailsGeneratedCount s,
                captureLog = captureLog s @ [startTimeSeconds violation],
                player = w \<rparr>))
      else (violation, s))"

fun thumbnail_loop ::
  "('w \<Rightarrow> number \<Rightarrow> capture_outcome \<times> 'w) \<Rightarrow> DetectedViolation list \<Rightarrow> 'w loop_state \<Rightarrow>
     DetectedViolation list \<times> 'w loop_state" where
  "thumbnail_loop capture [] s = ([], s)"
| "thumbnail_loop capture (violation # rest) s =
     (case bind_thumbnail capture violation s of
        (violation', s') \<Rightarrow>
          (case thumbnail_loop capture rest s' of
             (rest', s'') \<Rightarrow> (violation' # rest', s'')))"

text \<open>
  The loop of \<open>generateAllThumbnails\<close> from a fresh counter, on the copy
  \<open>updatedViolations\<close> of the current violations. The wait for the player's metadata
  before the loop and the write-back of the list into the component state after it are
  not part of this function.
\<close>

definition loop_start :: "'w \<Rightarrow> 'w loop_state" where
  "loop_start w = \<lparr> thumbnailsGeneratedCount = 0, captureLog = [], player = w \<rparr>"

definition generateAllThumbnails ::
  "('w \<Rightarrow> number \<Rightarrow> capture_outcome \<times> 'w) \<Rightarrow> DetectedViolation list \<Rightarrow> 'w \<Rightarrow>
     DetectedViolation list \<times> 'w loop_state" where
  "generateAllThumbnails capture vs w = thumbnail_loop capture vs (loop_start w)"

text \<open>
  The capture the component passes: \<open>captureFrameAtTime\<close> on the one video player, the
  browser's behaviour at the \<open>k\<close>-th call given by \<open>env k\<close>.
\<close>

definition player_capture ::
  "(nat \<Rightarrow> browser) \<Rightarrow> HTMLVideoElement option \<times> nat \<Rightarrow> number \<Rightarrow>
     capture_outcome \<times> (HTMLVideoElement option \<times> nat)" where
  "player_capture env w timeSeconds =
     (case captureFrameAtTime (env (snd w)) (fst w) timeSeconds of
        (r, v) \<Rightarrow> (r, (v, Suc (snd w))))"

section \<open>Saving a report (App.tsx, handleSaveReport)\<close>

record UploadedFileDetails =
  up_name :: string
  up_uri :: string
  up_videoId :: string
  up_mimeType :: string

text \<open>\<open>videoPlayerRef.current?.duration\<close>: a number that may be \<open>NaN\<close> or infinite.\<close>

datatype duration_value = NaN | Infinite | Finite number

text \<open>
  The component state \<open>handleSaveReport\<close> reads. Of the selected \<open>File\<close> only the name is
  read. \<open>st_jsaContext\<close> and \<open>st_operatorComments\<close> are the state variables \<open>jsaContext\<close>
  and \<open>operatorComments\<close>.
\<close>

record AppState =
  selectedFile :: "string option"
  uploadedFileDetails :: "UploadedFileDetails option"
  analysisResult :: "ParsedAnalysisResult option"
  rawGeminiResponse :: "string option"
  savedReport :: "VideoAnalysisReport option"
  selectedReportForViewing :: "VideoAnalysisReport option"
  st_jsaContext :: string
  userInstructionPrompt :: string
  st_operatorComments :: string
  currentReportStatus :: ReportStatus
  playerDuration :: "duration_value option"

text \<open>
  What the handler needs from outside: its own \<open>new Date().toISOString()\<close>, the clock
  reads of the store 400 ms later, and \<open>JSON.stringify\<close>.
\<close>

record save_env =
  saveIso :: string
  addClock :: clock
  stringify :: "ParsedAnalysisResult \<Rightarrow> string"

text \<open>The outcomes, one per notification of the two handlers.\<close>

datatype save_outcome =
    CannotSaveCriticalErrors
  | NoNewAnalysisToSave
  | InconsistentState
  | MissingForNewReport
  | ReportSaved VideoAnalysisReport
  | NoReportToUpdate
  | ReportUpdated VideoAnalysisReport
  | UpdateFailed string

text \<open>\<open>!analysisResult.violations || analysisResult.violations.length === 0\<close>\<close>

definition no_violations :: "ParsedAnalysisResult \<Rightarrow> bool" where
  "no_violations r = (case res_violations r of None \<Rightarrow> True | Some vs \<Rightarrow> length vs = 0)"

text \<open>\<open>analysisResult.violations || []\<close>\<close>

definition violations_or_empty :: "ParsedAnalysisResult \<Rightarrow> DetectedViolation list" where
  "violations_or_empty r = (case res_violations r of None \<Rightarrow> [] | Some vs \<Rightarrow> vs)"

definition no_updates :: ReportUpdates where
  "no_updates =
     \<lparr> u_id = None, u_videoId = None, u_videoFileName = None, u_videoFileUri = None,
       u_analysisDateTime = None, u_jsaContext = None, u_userPrompt = None,
       u_geminiRawResponse = None, u_summary = None, u_safetyScore = None,
       u_violations = None, u_positiveObservations = None, u_operatorComments = None,
       u_reportStatus = None, u_videoDurationSeconds = None \<rparr>"

definition handleUpdateReport :: "AppState \<Rightarrow> store \<Rightarrow> save_outcome \<times> store" where
  "handleUpdateReport s st =
     (case savedReport s of
        None \<Rightarrow> (NoReportToUpdate, st)
      | Some saved \<Rightarrow>
          (let updatedData = no_updates
                 \<lparr> u_operatorComments := Some (Some (st_operatorComments s)),
                   u_reportStatus := Some (currentReportStatus s),
                   u_violations := Some
                     (case selectedReportForViewing s of
                        None \<Rightarrow> violations saved
                      | Some viewed \<Rightarrow>
                          if report_id viewed = report_id saved then violations viewed
                          else violations saved) \<rparr>
           in (case updateVideoAnalysisReport (report_id saved) updatedData st of
                 (Inl message, st') \<Rightarrow> (UpdateFailed message, st')
               | (Inr updated, st') \<Rightarrow> (ReportUpdated updated, st'))))"

definition reportToSave ::
  "save_env \<Rightarrow> AppState \<Rightarrow> string \<Rightarrow> UploadedFileDetails \<Rightarrow> ParsedAnalysisResult \<Rightarrow> ReportData"
  where
  "reportToSave env s currentFile currentUploadedDetails result =
     \<lparr> videoId = up_videoId currentUploadedDetails,
       videoFileName = currentFile,
       videoFileUri = Some (up_uri currentUploadedDetails),
       analysisDateTime = saveIso env,
       jsaContext = Some (st_jsaContext s),
       userPrompt = Some (userInstructionPrompt s),
       geminiRawResponse =
         (case rawGeminiResponse s of
            None \<Rightarrow> stringify env result
          | Some raw \<Rightarrow> if raw \<noteq> [] then raw else stringify env result),
       summary = res_summary result,
       safetyScore = res_safetyScore result,
       violations = violations_or_empty result,
       positiveObservations = res_positiveObservations result,
       operatorComments = Some (st_operatorComments s),
       reportStatus = currentReportStatus s,
       videoDurationSeconds =
         (case playerDuration s of
            Some (Finite d) \<Rightarrow> if d \<noteq> 0 then Some d else None
          | _ \<Rightarrow> None) \<rparr>"

definition handleSaveReport :: "save_env \<Rightarrow> AppState \<Rightarrow> store \<Rightarrow> save_outcome \<times> store" where
  "handleSaveReport env s st =
     (if selectedReportForViewing s = None \<and>
         (case analysisResult s of
            None \<Rightarrow> False
          | Some result \<Rightarrow> truthy (res_error result) \<and> no_violations result)
      then (CannotSaveCriticalErrors, st)
      else if selectedReportForViewing s = None \<and>
              (analysisResult s = None \<or> selectedFile s = None \<or> uploadedFileDetails s = None)
      then (NoNewAnalysisToSave, st)
      else
        (case selectedReportForViewing s of
           Some viewed \<Rightarrow>
             (case savedReport s of
                None \<Rightarrow> (InconsistentState, st)
              | Some saved \<Rightarrow>
                  if report_id saved \<noteq> report_id viewed then (InconsistentState, st)
                  else handleUpdateReport s st)
         | None \<Rightarrow>
             (case (selectedFile s, uploadedFileDetails s, analysisResult s) of
                (Some currentFile, Some currentUploadedDetails, Some result) \<Rightarrow>
                  (case addVideoAnalysisReport (addClock env)
                          (reportToSave env s currentFile currentUploadedDetails result) st of
                     (newSavedReport, st') \<Rightarrow> (ReportSaved newSavedReport, st'))
              | _ \<Rightarrow> (MissingForNewReport, st))))"

text \<open>The \<open>disabled\<close> attribute of the Save Analysis Report button.\<close>

definition saveButtonDisabled :: "AppState \<Rightarrow> bool" where
  "saveButtonDisabled s =
     (case analysisResult s of
        None \<Rightarrow> True
      | Some result \<Rightarrow> truthy (res_error result) \<and> no_violations result)"

section \<open>Audio inspection (backend/src/services/videoProcessor.js)\<close>

text \<open>
  A property of an ffprobe stream object: absent, a number or a string. \<open>JNum n\<close> is an
  integral number of magnitude below \<open>10^21\<close>, which \<open>parseInt\<close> reads back as \<open>n\<close>.
\<close>

datatype js_value = JUndefined | JNum int | JStr string

record AudioStream =
  codec_name :: js_value
  channels :: js_value
  sample_rate :: js_value
  channel_layout :: js_value

definition falsy :: "js_value \<Rightarrow> bool" where
  "falsy x = (case x of JUndefined \<Rightarrow> True | JNum n \<Rightarrow> n = 0 | JStr t \<Rightarrow> t = [])"

text \<open>
  A string is its UTF-8 bytes. \<open>StrWhiteSpaceChar\<close> lists the white space and line
  terminator characters of the language, each by its encoding: U+0009 to U+000D,
  U+0020, U+00A0, U+1680, U+2000 to U+200A, U+2028, U+2029, U+202F, U+205F, U+3000 and
  U+FEFF.
\<close>

definition StrWhiteSpaceChar :: "string list" where
  "StrWhiteSpaceChar =
     [[CHR 0x09], [CHR 0x0A], [CHR 0x0B], [CHR 0x0C], [CHR 0x0D], [CHR 0x20],
      [CHR 0xC2, CHR 0xA0],
      [CHR 0xE1, CHR 0x9A, CHR 0x80],
      [CHR 0xE2, CHR 0x80, CHR 0x80], [CHR 0xE2, CHR 0x80, CHR 0x81],
      [CHR 0xE2, CHR 0x80, CHR 0x82], [CHR 0xE2, CHR 0x80, CHR 0x83],
      [CHR 0xE2, CHR 0x80, CHR 0x84], [CHR 0xE2, CHR 0x80, CHR 0x85],
      [CHR 0xE2, CHR 0x80, CHR 0x86], [CHR 0xE2, CHR 0x80, CHR 0x87],
      [CHR 0xE2, CHR 0x80, CHR 0x88], [CHR 0xE2, CHR 0x80, CHR 0x89],
      [CHR 0xE2, CHR 0x80, CHR 0x8A],
      [CHR 0xE2, CHR 0x80, CHR 0xA8], [CHR 0xE2, CHR 0x80, CHR 0xA9],
      [CHR 0xE2, CHR 0x80, CHR 0xAF],
      [CHR 0xE2, CHR 0x81, CHR 0x9F],
      [CHR 0xE3, CHR 0x80, CHR 0x80],
      [CHR 0xEF, CHR 0xBB, CHR 0xBF]]"

text \<open>The number of bytes of the white space character a text starts with, 0 if none.\<close>

definition leading_white_space :: "string \<Rightarrow> nat" where
  "leading_white_space t =
     (case List.find (\<lambda>w. take (length w) t = w) StrWhiteSpaceChar of
        None \<Rightarrow> 0
      | Some w \<Rightarrow> length w)"

function trimStart :: "string \<Rightarrow> string" where
  "trimStart t =
     (if leading_white_space t = 0 then t else trimStart (drop (leading_white_space t) t))"
  by pat_completeness auto
termination
proof (relation "measure length")
  show "wf (measure length)"
    by simp
next
  fix t :: string
  assume white: "leading_white_space t \<noteq> 0"
  have "leading_white_space [] = 0"
    by (simp add: leading_white_space_def StrWhiteSpaceChar_def)
  with white have "t \<noteq> []"
    by auto
  with white show "(drop (leading_white_space t) t, t) \<in> measure length"
    by simp
qed

declare trimStart.simps [simp del]

definition decimal_digit :: "char \<Rightarrow> nat option" where
  "decimal_digit c = map_of (zip ''0123456789'' [0, 1, 2, 3, 4, 5, 6, 7, 8, 9]) c"

definition hex_digit :: "char \<Rightarrow> nat option" where
  "hex_digit c =
     map_of (zip ''0123456789abcdefABCDEF''
       [0, 1, 2, 3, 4, 5, 6, 7, 8, 9, 10, 11, 12, 13, 14, 15, 10, 11, 12, 13, 14, 15]) c"

fun leading_digits :: "(char \<Rightarrow> nat option) \<Rightarrow> string \<Rightarrow> nat list" where
  "leading_digits digit [] = []"
| "leading_digits digit (c # cs) =
     (case digit c of None \<Rightarrow> [] | Some k \<Rightarrow> k # leading_digits digit cs)"

definition digits_value :: "nat \<Rightarrow> nat list \<Rightarrow> nat" where
  "digits_value radix ds = foldl (\<lambda>a k. a * radix + k) 0 ds"

text \<open>
  \<open>parseInt\<close> with no radix argument on a string: leading white space is trimmed,
  then come a sign, a \<open>0x\<close> prefix for base 16 and the longest run of digits;
  \<open>NaN\<close> (\<open>None\<close>) without a digit.
\<close>

definition parseInt_string :: "string \<Rightarrow> int option" where
  "parseInt_string t =
     (let u = trimStart t;
          negative = (take 1 u = ''-'');
          w = (if take 1 u = ''-'' \<or> take 1 u = ''+'' then drop 1 u else u);
          hex = (take 2 w = ''0x'' \<or> take 2 w = ''0X'');
          ds = (if hex then leading_digits hex_digit (drop 2 w)
                else leading_digits decimal_digit w);
          magnitude = int (digits_value (if hex then 16 else 10) ds)
      in if ds = [] then None else Some (if negative then - magnitude else magnitude))"

definition parseInt :: "js_value \<Rightarrow> int option" where
  "parseInt x =
     (case x of JUndefined \<Rightarrow> None | JNum n \<Rightarrow> Some n | JStr t \<Rightarrow> parseInt_string t)"

definition string_of_int :: "int \<Rightarrow> string" where
  "string_of_int i =
     (if i < 0 then ''-'' @ string_of_nat (nat (- i)) else string_of_nat (nat i))"

text \<open>The template literal \<open>${audioStream.sample_rate}\<close>.\<close>

definition to_string :: "js_value \<Rightarrow> string" where
  "to_string x =
     (case x of JUndefined \<Rightarrow> ''undefined'' | JNum n \<Rightarrow> string_of_int n | JStr t \<Rightarrow> t)"

text \<open>A comparison with \<open>NaN\<close> is false.\<close>

definition below_8000 :: "int option \<Rightarrow> bool" where
  "below_8000 r = (case r of None \<Rightarrow> False | Some n \<Rightarrow> n < 8000)"

definition detectAudioIssues :: "AudioStream \<Rightarrow> string list option" where
  "detectAudioIssues audioStream =
     (let issues =
        (if falsy (channels audioStream) \<or> channels audioStream = JNum 0
         then [''Invalid channel count (0 channels)''] else []) @
        (if \<not> falsy (sample_rate audioStream) \<and> below_8000 (parseInt (sample_rate audioStream))
         then [''Low sample rate ('' @ to_string (sample_rate audioStream) @ ''Hz < 8kHz)'']
         else []) @
        (if falsy (codec_name audioStream) then [''Missing audio codec''] else [])
      in if length issues > 0 then Some issues else None)"

definition needsGeminiProcessing :: bool where
  "needsGeminiProcessing = True"

text \<open>
  The audio stream ffprobe reports for the output of \<open>processVideo\<close>, whose output options
  fix it: \<open>-c:a aac\<close>, \<open>-ar 44100\<close>, \<open>-ac 2\<close> on a stereo source.
\<close>

definition repaired_audio_stream :: AudioStream where
  "repaired_audio_stream =
     \<lparr> codec_name = JStr ''aac'', channels = JNum 2, sample_rate = JNum 44100,
       channel_layout = JStr ''stereo'' \<rparr>"

section \<open>The ingest pipeline (videoProcessor.js, scripts/preprocess-video.sh)\<close>

text \<open>
  The file system is a map from paths to contents, the \<open>videos\<close> table a map from ids to
  rows. ffprobe and ffmpeg are programs outside the repository: each is a function of
  the content at the input path (\<open>None\<close> when there is no file) that fails with a
  message or gives its result; ffmpeg's result is the content it writes.
\<close>

type_synonym path = string
type_synonym files = "path \<rightharpoonup> string"

record ffprobe_metadata =
  format_duration :: number
  audio :: "AudioStream option"

record audio_analysis =
  codec :: js_value
  a_channels :: js_value
  sampleRate :: js_value
  channelLayout :: js_value
  hasIssues :: "string list option"

record video_analysis =
  duration :: number
  audioStream :: "audio_analysis option"
  needsProcessing :: bool

datatype row_metadata = AnalysisJson video_analysis | ErrorJson string

record video_row =
  filename :: string
  original_filename :: string
  file_size :: nat
  row_duration :: number
  mime_type :: string
  processing_status :: string
  processed_filename :: "string option"
  storage_path :: "path option"
  metadata :: row_metadata

record server =
  files :: files
  videos :: "string \<rightharpoonup> video_row"

record media_tools =
  ffprobe :: "string option \<Rightarrow> string + ffprobe_metadata"
  ffmpeg :: "string option \<Rightarrow> number \<Rightarrow> string + string"
  uuidv4 :: string
  extname :: "string \<Rightarrow> string"
  processedDir :: path

record upload =
  originalname :: string
  upload_path :: path
  size :: nat
  mimetype :: string

text \<open>
  The value \<open>processVideoFile\<close> returns. \<open>p_issues\<close> is \<open>processingResult.issues\<close>: absent
  (\<open>None\<close>) when the video was not processed, else the issues of the audio stream
  (\<open>null\<close> when it has none) or \<open>['No audio stream']\<close>.
\<close>

record processed =
  p_videoId :: string
  p_processedFilename :: string
  p_filePath :: path
  p_analysis :: video_analysis
  p_issues :: "string list option option"

definition analyzeVideo :: "media_tools \<Rightarrow> files \<Rightarrow> path \<Rightarrow> string + video_analysis" where
  "analyzeVideo tools fs filePath =
     (case ffprobe tools (fs filePath) of
        Inl message \<Rightarrow> Inl (''Failed to analyze video: '' @ message)
      | Inr md \<Rightarrow>
          Inr \<lparr> duration = format_duration md,
                audioStream =
                  (case audio md of
                     None \<Rightarrow> None
                   | Some a \<Rightarrow>
                       Some \<lparr> codec = codec_name a, a_channels = channels a,
                              sampleRate = sample_rate a, channelLayout = channel_layout a,
                              hasIssues = detectAudioIssues a \<rparr>),
                needsProcessing = needsGeminiProcessing \<rparr>)"

text \<open>
  \<open>processVideo\<close> runs ffmpeg from \<open>inputPath\<close> to \<open>outputPath\<close> with \<open>-y\<close>: on success
  the output file holds what ffmpeg wrote, on failure the promise rejects.
\<close>

definition processVideo ::
  "media_tools \<Rightarrow> files \<Rightarrow> path \<Rightarrow> path \<Rightarrow> number \<Rightarrow> (string + path) \<times> files" where
  "processVideo tools fs inputPath outputPath d =
     (case ffmpeg tools (fs inputPath) d of
        Inl message \<Rightarrow> (Inl (''Video processing failed: '' @ message), fs)
      | Inr written \<Rightarrow> (Inr outputPath, fs(outputPath \<mapsto> written)))"

text \<open>The \<open>catch\<close> block: \<open>UPDATE videos SET processing_status = 'error' ... WHERE id = ?\<close>.\<close>

definition mark_error :: "server \<Rightarrow> string \<Rightarrow> string \<Rightarrow> server" where
  "mark_error srv vid message =
     (case videos srv vid of
        None \<Rightarrow> srv
      | Some row \<Rightarrow>
          srv\<lparr> videos := (videos srv)(vid \<mapsto>
                 row\<lparr> processing_status := ''error'', metadata := ErrorJson message \<rparr>) \<rparr>)"

text \<open>
  The pipeline, its \<open>try\<close> block step by step; each failure runs the \<open>catch\<close> block
  (\<open>mark_error\<close>) and rethrows. The \<open>INSERT\<close> fails on an id the table already holds
  (the primary key) and \<open>fs.unlink\<close> on a missing file; their messages come from the
  database driver and the file system and are given here as \<open>SQLITE_CONSTRAINT\<close> and
  \<open>ENOENT\<close>. \<open>path.join\<close> of the processed directory and the file name is the two
  joined by a slash.
\<close>

definition processVideoFile ::
  "media_tools \<Rightarrow> server \<Rightarrow> upload \<Rightarrow> (string + processed) \<times> server" where
  "processVideoFile tools srv originalFile =
     (let vid = uuidv4 tools;
          processedFilename = vid @ ''_processed'' @ extname tools (originalname originalFile);
          originalPath = upload_path originalFile;
          processedPath = processedDir tools @ ''/'' @ processedFilename
      in case analyzeVideo tools (files srv) originalPath of
           Inl message \<Rightarrow> (Inl message, mark_error srv vid message)
         | Inr analysis \<Rightarrow>
             if videos srv vid \<noteq> None
             then (Inl ''SQLITE_CONSTRAINT'', mark_error srv vid ''SQLITE_CONSTRAINT'')
             else
               (let row = \<lparr> filename = processedFilename,
                            original_filename = originalname originalFile,
                            file_size = size originalFile,
                            row_duration = duration analysis,
                            mime_type = mimetype originalFile,
                            processing_status = ''processing'',
                            processed_filename = None,
                            storage_path = None,
                            metadata = AnalysisJson analysis \<rparr>;
                    srv1 = srv\<lparr> videos := (videos srv)(vid \<mapsto> row) \<rparr>;
                    repaired =
                      (if needsProcessing analysis
                       then processVideo tools (files srv1) originalPath processedPath
                              (duration analysis)
                       else (Inr originalPath, files srv1))
                in case repaired of
                     (Inl message, fs) \<Rightarrow> (Inl message, mark_error (srv1\<lparr> files := fs \<rparr>) vid message)
                   | (Inr finalPath, fs) \<Rightarrow>
                       (let srv2 = srv1\<lparr> files := fs,
                                    videos := (videos srv1)(vid \<mapsto>
                                      row\<lparr> processing_status := ''completed'',
                                          processed_filename := Some processedFilename,
                                          storage_path := Some finalPath \<rparr>) \<rparr>;
                            result = \<lparr> p_videoId = vid,
                                       p_processedFilename = processedFilename,
                                       p_filePath = finalPath,
                                       p_analysis = analysis,
                                       p_issues =
                                         (if needsProcessing analysis then
                                            Some (case audioStream analysis of
                                                    None \<Rightarrow> Some [''No audio stream'']
                                                  | Some a \<Rightarrow> hasIssues a)
                                          else None) \<rparr>
                        in if needsProcessing analysis then
                             (if files srv2 originalPath = None
                              then (Inl ''ENOENT'', mark_error srv2 vid ''ENOENT'')
                              else (Inr result,
                                    srv2\<lparr> files := (files srv2)(originalPath := None) \<rparr>))
                           else (Inr result, srv2))))"

text \<open>
  \<open>fix_audio_stream\<close> of the command-line tool: ffmpeg writes \<open>${output_file}.tmp\<close>, which
  \<open>mv\<close> then renames to the output file. Under \<open>set -e\<close> a failing ffmpeg ends the script.
\<close>

definition fix_audio_stream ::
  "(string option \<Rightarrow> number \<Rightarrow> string + string) \<Rightarrow> files \<Rightarrow> path \<Rightarrow> path \<Rightarrow> number \<Rightarrow>
     (string + unit) \<times> files" where
  "fix_audio_stream ffmpeg_copy fs input_file output_file d =
     (let temp_output = output_file @ ''.tmp''
      in case ffmpeg_copy (fs input_file) d of
           Inl message \<Rightarrow> (Inl message, fs)
         | Inr written \<Rightarrow>
             (let fs1 = fs(temp_output \<mapsto> written)
              in (Inr (), (fs1(output_file := fs1 temp_output))(temp_output := None))))"

section \<open>Example values\<close>

text \<open>Concrete inputs on which the theorems below are run.\<close>

definition violation_at_10 :: DetectedViolation where
  "violation_at_10 =
     \<lparr> description = ''No hard hat'', startTimeSeconds = 10, endTimeSeconds = 12,
       durationSeconds = 2, severity = High, onScreenStartTime = None,
       onScreenEndTime = None, thumbnailDataUrl = None \<rparr>"

definition violation_at_20 :: DetectedViolation where
  "violation_at_20 =
     \<lparr> description = ''Blocked exit'', startTimeSeconds = 20, endTimeSeconds = 25,
       durationSeconds = 5, severity = Medium, onScreenStartTime = Some ''07:48:15'',
       onScreenEndTime = None, thumbnailDataUrl = Some (Some ''data:image/jpeg;base64,AAAA'') \<rparr>"

definition violation_at_30 :: DetectedViolation where
  "violation_at_30 =
     \<lparr> description = ''Unsecured ladder'', startTimeSeconds = 30, endTimeSeconds = 31,
       durationSeconds = 1, severity = Critical, onScreenStartTime = None,
       onScreenEndTime = None, thumbnailDataUrl = None \<rparr>"

definition three_violations :: "DetectedViolation list" where
  "three_violations = [violation_at_10, violation_at_20, violation_at_30]"

definition first_report :: VideoAnalysisReport where
  "first_report =
     \<lparr> videoId = ''files/a'', videoFileName = ''a.mp4'', videoFileUri = None,
       analysisDateTime = ''2025-06-01T10:00:00.000Z'', jsaContext = None, userPrompt = None,
       geminiRawResponse = ''{}'', summary = Some ''first'', safetyScore = Some 90,
       violations = [], positiveObservations = None, operatorComments = None,
       reportStatus = PendingReview, videoDurationSeconds = None,
       report_id = ''var-1000'' \<rparr>"

definition second_payload :: ReportData where
  "second_payload =
     \<lparr> videoId = ''files/b'', videoFileName = ''b.mp4'', videoFileUri = None,
       analysisDateTime = ''2025-06-01T09:59:59.600Z'', jsaContext = None, userPrompt = None,
       geminiRawResponse = ''{}'', summary = Some ''second'', safetyScore = Some 40,
       violations = [violation_at_10], positiveObservations = None, operatorComments = None,
       reportStatus = PendingReview, videoDurationSeconds = None \<rparr>"

definition clock_1000 :: clock where
  "clock_1000 = \<lparr> dateNow = 1000, isoNow = ''2025-06-01T10:00:00.000Z'' \<rparr>"

definition clock_1001 :: clock where
  "clock_1001 = \<lparr> dateNow = 1001, isoNow = ''2025-06-01T10:00:00.001Z'' \<rparr>"

definition review_updates :: ReportUpdates where
  "review_updates =
     no_updates\<lparr> u_operatorComments := Some (Some ''checked''), u_reportStatus := Some Reviewed \<rparr>"

text \<open>\<open>JSON.parse("{}")\<close>: an object with none of the properties.\<close>

definition empty_object :: ParsedAnalysisResult where
  "empty_object =
     \<lparr> res_summary = None, res_safetyScore = None, res_violations = None,
       res_positiveObservations = None, res_error = None, res_rawResponse = None \<rparr>"

text \<open>The object \<open>analyzeUploadedVideo\<close> serialises when no API key is configured.\<close>

definition api_key_error :: ParsedAnalysisResult where
  "api_key_error =
     empty_object\<lparr> res_error :=
       Some ''API_KEY for Gemini is not configured. Video analysis cannot be performed.'' \<rparr>"

definition partial_result :: ParsedAnalysisResult where
  "partial_result =
     \<lparr> res_summary = None, res_safetyScore = None, res_violations = Some [violation_at_10],
       res_positiveObservations = None, res_error = Some ''Video was cut short'',
       res_rawResponse = None \<rparr>"

definition clean_result :: ParsedAnalysisResult where
  "clean_result =
     \<lparr> res_summary = Some ''ok'', res_safetyScore = Some 90,
       res_violations = Some [violation_at_10], res_positiveObservations = Some [''ppe worn''],
       res_error = None, res_rawResponse = None \<rparr>"

definition upload_details :: UploadedFileDetails where
  "upload_details =
     \<lparr> up_name = ''a.mp4'', up_uri = ''https://files/a'', up_videoId = ''files/a'',
       up_mimeType = ''video/mp4'' \<rparr>"

definition state_with :: "string option \<Rightarrow> ParsedAnalysisResult \<Rightarrow> AppState" where
  "state_with file result =
     \<lparr> selectedFile = file, uploadedFileDetails = Some upload_details,
       analysisResult = Some result, rawGeminiResponse = Some ''{...}'', savedReport = None,
       selectedReportForViewing = None, st_jsaContext = [],
       userInstructionPrompt = ''Summarize this video'', st_operatorComments = [],
       currentReportStatus = PendingReview, playerDuration = Some (Finite 20) \<rparr>"

definition save_env_1001 :: save_env where
  "save_env_1001 =
     \<lparr> saveIso = ''2025-06-01T10:00:00.601Z'', addClock = clock_1001,
       stringify = (\<lambda>r. ''{}'') \<rparr>"

definition playing_video :: HTMLVideoElement where
  "playing_video =
     \<lparr> readyState = 4, currentSrc = ''blob:video'', paused = False, isConnected = True,
       videoWidth = 1280, videoHeight = 720, currentTime = 3 \<rparr>"

definition seeked_browser :: browser where
  "seeked_browser =
     \<lparr> loadedmetadata = True, seekSignal = Seeked, context2d = True,
       toDataURL = ''data:image/jpeg;base64,BBBB'', playAllowed = True \<rparr>"

text \<open>The browser of the first call never signals the seek; every later call succeeds.\<close>

definition first_seek_times_out :: "nat \<Rightarrow> browser" where
  "first_seek_times_out k =
     (if k = 0 then seeked_browser\<lparr> seekSignal := SeekTimeout \<rparr> else seeked_browser)"

definition broken_audio :: AudioStream where
  "broken_audio =
     \<lparr> codec_name = JUndefined, channels = JNum 0, sample_rate = JNum 1000,
       channel_layout = JUndefined \<rparr>"

definition silent_stereo_low_rate :: AudioStream where
  "silent_stereo_low_rate =
     \<lparr> codec_name = JStr ''aac'', channels = JNum 2, sample_rate = JNum 0,
       channel_layout = JStr ''stereo'' \<rparr>"

definition sample_tools :: media_tools where
  "sample_tools =
     \<lparr> ffprobe = (\<lambda>c. case c of
                       None \<Rightarrow> Inl ''No such file or directory''
                     | Some x \<Rightarrow> Inr \<lparr> format_duration = 5, audio = Some broken_audio \<rparr>),
       ffmpeg = (\<lambda>c d. case c of
                       None \<Rightarrow> Inl ''No such file or directory''
                     | Some x \<Rightarrow> Inr (x @ ''+silent-aac'')),
       uuidv4 = ''0b5f'',
       extname = (\<lambda>n. ''.mp4''),
       processedDir = ''uploads/processed'' \<rparr>"

definition temp_upload :: upload where
  "temp_upload =
     \<lparr> originalname = ''site.mp4'', upload_path = ''uploads/temp/77_site.mp4'', size = 3,
       mimetype = ''video/mp4'' \<rparr>"

definition server_with_upload :: server where
  "server_with_upload =
     \<lparr> files = [''uploads/temp/77_site.mp4'' \<mapsto> ''raw''], videos = Map.empty \<rparr>"

section \<open>The report store: theorems\<close>

lemma findIndex_None_iff: "findIndex P xs = None \<longleftrightarrow> (\<forall>x \<in> set xs. \<not> P x)"
  by (induction xs) auto

lemma findIndex_first:
  "k < length xs \<Longrightarrow> P (xs ! k) \<Longrightarrow> (\<forall>j < k. \<not> P (xs ! j)) \<Longrightarrow> findIndex P xs = Some k"
proof (induction xs arbitrary: k)
  case Nil
  then show ?case by simp
next
  case (Cons x xs)
  show ?case
  proof (cases k)
    case 0
    with Cons.prems show ?thesis by simp
  next
    case (Suc m)
    from Cons.prems Suc have nx: "\<not> P x" by fastforce
    from Cons.prems Suc have "m < length xs" "P (xs ! m)" by simp_all
    moreover have "\<forall>j < m. \<not> P (xs ! j)"
    proof (intro allI impI)
      fix j assume "j < m"
      then have "Suc j < k" using Suc by simp
      with Cons.prems(3) have "\<not> P ((x # xs) ! Suc j)" by blast
      then show "\<not> P (xs ! j)" by simp
    qed
    ultimately have "findIndex P xs = Some m" by (rule Cons.IH)
    with nx Suc show ?thesis by simp
  qed
qed

lemma find_snoc_fresh:
  "\<forall>x \<in> set xs. \<not> P x \<Longrightarrow> P y \<Longrightarrow> List.find P (xs @ [y]) = Some y"
  by (induction xs) auto

lemma find_snoc_taken:
  "List.find P xs = Some x \<Longrightarrow> List.find P (xs @ [y]) = Some x"
  by (induction xs) (auto split: if_splits)

lemma new_id_1000: "new_id clock_1000 = ''var-1000''"
  by (simp add: new_id_def clock_1000_def string_of_nat.simps)

lemma new_id_1001: "new_id clock_1001 = ''var-1001''"
  by (simp add: new_id_def clock_1001_def string_of_nat.simps)

text \<open>
  C8, as amended. The identifier is \<open>var-\<close> followed by the millisecond clock, and the
  lookup returns the first report with the identifier. When no stored report already
  carries the identifier generated for the new report, creating a report and fetching
  it by the returned id yields the created report, whose violations list, summary and
  safetyScore are those of the saved payload.
\<close>

theorem store_round_trip:
  assumes "\<forall>r \<in> set st. report_id r \<noteq> new_id clk"
  shows "getVideoAnalysisReportById (report_id (fst (addVideoAnalysisReport clk p st)))
           (snd (addVideoAnalysisReport clk p st)) = Some (fst (addVideoAnalysisReport clk p st))
         \<and> violations (fst (addVideoAnalysisReport clk p st)) = violations p
         \<and> summary (fst (addVideoAnalysisReport clk p st)) = summary p
         \<and> safetyScore (fst (addVideoAnalysisReport clk p st)) = safetyScore p"
  using assms
  by (simp add: addVideoAnalysisReport_def getVideoAnalysisReportById_def Let_def find_snoc_fresh)

theorem store_round_trip_witness:
  "report_id first_report \<noteq> new_id clock_1001
   \<and> getVideoAnalysisReportById ''var-1001''
        (snd (addVideoAnalysisReport clock_1001 second_payload [first_report]))
       = Some (fst (addVideoAnalysisReport clock_1001 second_payload [first_report]))
   \<and> violations (fst (addVideoAnalysisReport clock_1001 second_payload [first_report]))
       = [violation_at_10]
   \<and> summary (fst (addVideoAnalysisReport clock_1001 second_payload [first_report]))
       = Some ''second''
   \<and> safetyScore (fst (addVideoAnalysisReport clock_1001 second_payload [first_report]))
       = Some 40"
proof -
  have fresh: "\<forall>r \<in> set [first_report]. report_id r \<noteq> new_id clock_1001"
    by (simp add: first_report_def new_id_1001)
  have "report_id (fst (addVideoAnalysisReport clock_1001 second_payload [first_report]))
          = ''var-1001''"
    by (simp add: addVideoAnalysisReport_def Let_def new_id_1001)
  with fresh store_round_trip [OF fresh, of second_payload] show ?thesis
    by (simp add: second_payload_def)
qed

text \<open>
  C8 as stated fails: two reports created in the same millisecond get the same
  identifier, and fetching by the identifier returned for the second finds the first,
  whose summary, score and violations are not those of the second payload.
\<close>

theorem store_round_trip_counterexample:
  "report_id (fst (addVideoAnalysisReport clock_1000 second_payload [first_report])) = ''var-1000''
   \<and> getVideoAnalysisReportById ''var-1000''
        (snd (addVideoAnalysisReport clock_1000 second_payload [first_report]))
       = Some first_report
   \<and> summary first_report \<noteq> summary second_payload
   \<and> safetyScore first_report \<noteq> safetyScore second_payload
   \<and> violations first_report \<noteq> violations second_payload"
  by (simp add: addVideoAnalysisReport_def getVideoAnalysisReportById_def Let_def new_id_1000
      first_report_def second_payload_def)

text \<open>
  C9. \<open>addVideoAnalysisReport\<close> stores the time read at the call as
  \<open>analysisDateTime\<close>, whatever the payload carries: the report it returns is the one
  appended to the store, its time stamp is the clock's, and it equals the payload's
  time stamp only when the two happen to coincide.
\<close>

theorem add_stamps_current_time:
  "analysisDateTime (fst (addVideoAnalysisReport clk p st)) = isoNow clk
   \<and> snd (addVideoAnalysisReport clk p st) = st @ [fst (addVideoAnalysisReport clk p st)]
   \<and> (analysisDateTime (fst (addVideoAnalysisReport clk p st)) = analysisDateTime p)
       = (isoNow clk = analysisDateTime p)"
  by (simp add: addVideoAnalysisReport_def Let_def)

theorem add_stamps_current_time_witness:
  "analysisDateTime (fst (addVideoAnalysisReport clock_1001 second_payload []))
     = ''2025-06-01T10:00:00.001Z''
   \<and> analysisDateTime second_payload = ''2025-06-01T09:59:59.600Z''
   \<and> analysisDateTime (fst (addVideoAnalysisReport clock_1001 second_payload []))
       \<noteq> analysisDateTime second_payload"
  using add_stamps_current_time [of clock_1001 second_payload "[]"]
  by (simp add: clock_1001_def second_payload_def)

lemma update_absent:
  assumes "\<forall>r \<in> set st. report_id r \<noteq> i"
  shows "updateVideoAnalysisReport i u st = (Inl ''Report not found for update.'', st)"
proof -
  from assms have "findIndex (\<lambda>r. report_id r = i) st = None"
    by (simp add: findIndex_None_iff)
  then show ?thesis
    by (simp add: updateVideoAnalysisReport_def)
qed

lemma update_present:
  "k < length st \<Longrightarrow> report_id (st ! k) = i \<Longrightarrow> (\<forall>j < k. report_id (st ! j) \<noteq> i) \<Longrightarrow>
     updateVideoAnalysisReport i u st
       = (Inr (spread_updates (st ! k) u), st[k := spread_updates (st ! k) u])"
  using findIndex_first [of k st "\<lambda>r. report_id r = i"]
  by (simp add: updateVideoAnalysisReport_def Let_def)

lemma spread_updates_overwrites: "overwritten_by r u (spread_updates r u)"
  by (simp add: overwritten_by_def spread_updates_def or_original_def)

text \<open>
  C10. For an id no stored report has, \<open>updateVideoAnalysisReport\<close> fails with
  \<open>Report not found for update.\<close> and the store is unchanged. For an id that is present
  (\<open>k\<close> is the first index holding it), the call returns the stored report overwritten by
  exactly the properties present in the updates, so an absent \<open>analysisDateTime\<close> keeps
  its value; the store has the same length, holds the merged report at \<open>k\<close> and is
  unchanged at every other index.
\<close>

theorem update_report:
  "((\<forall>r \<in> set st. report_id r \<noteq> i) \<longrightarrow>
      updateVideoAnalysisReport i u st = (Inl ''Report not found for update.'', st))
   \<and> (\<forall>k. k < length st \<and> report_id (st ! k) = i \<and> (\<forall>j < k. report_id (st ! j) \<noteq> i) \<longrightarrow>
        (\<exists>r'. updateVideoAnalysisReport i u st = (Inr r', st[k := r'])
              \<and> overwritten_by (st ! k) u r'
              \<and> (u_analysisDateTime u = None \<longrightarrow> analysisDateTime r' = analysisDateTime (st ! k)))
        \<and> length (snd (updateVideoAnalysisReport i u st)) = length st
        \<and> (\<forall>j < length st. j \<noteq> k \<longrightarrow> snd (updateVideoAnalysisReport i u st) ! j = st ! j))"
proof -
  have present: "(\<exists>r'. updateVideoAnalysisReport i u st = (Inr r', st[k := r'])
              \<and> overwritten_by (st ! k) u r'
              \<and> (u_analysisDateTime u = None \<longrightarrow> analysisDateTime r' = analysisDateTime (st ! k)))
        \<and> length (snd (updateVideoAnalysisReport i u st)) = length st
        \<and> (\<forall>j < length st. j \<noteq> k \<longrightarrow> snd (updateVideoAnalysisReport i u st) ! j = st ! j)"
    if k: "k < length st \<and> report_id (st ! k) = i \<and> (\<forall>j < k. report_id (st ! j) \<noteq> i)" for k
  proof -
    from k have eq: "updateVideoAnalysisReport i u st
          = (Inr (spread_updates (st ! k) u), st[k := spread_updates (st ! k) u])"
      by (simp add: update_present)
    have "analysisDateTime (spread_updates (st ! k) u) = analysisDateTime (st ! k)"
      if "u_analysisDateTime u = None"
      using that by (simp add: spread_updates_def or_original_def)
    with eq spread_updates_overwrites [of "st ! k" u] show ?thesis
      by simp
  qed
  show ?thesis
    using update_absent [of st i u] present by blast
qed

theorem update_report_witness:
  "report_id first_report \<noteq> ''var-7''
   \<and> updateVideoAnalysisReport ''var-7'' review_updates [first_report]
       = (Inl ''Report not found for update.'', [first_report])
   \<and> (0 < length [first_report, first_report]
        \<and> report_id ([first_report, first_report] ! 0) = ''var-1000'')
   \<and> updateVideoAnalysisReport ''var-1000'' review_updates [first_report, first_report]
       = (Inr (first_report\<lparr> operatorComments := Some ''checked'', reportStatus := Reviewed \<rparr>),
          [first_report\<lparr> operatorComments := Some ''checked'', reportStatus := Reviewed \<rparr>,
           first_report])
   \<and> length (snd (updateVideoAnalysisReport ''var-1000'' review_updates
                     [first_report, first_report])) = 2
   \<and> snd (updateVideoAnalysisReport ''var-1000'' review_updates [first_report, first_report]) ! 1
       = first_report"
proof -
  have absent: "\<forall>r \<in> set [first_report]. report_id r \<noteq> ''var-7''"
    by (simp add: first_report_def)
  have first: "0 < length [first_report, first_report]
      \<and> report_id ([first_report, first_report] ! 0) = ''var-1000''
      \<and> (\<forall>j < 0. report_id ([first_report, first_report] ! j) \<noteq> ''var-1000'')"
    by (simp add: first_report_def)
  have merged: "spread_updates first_report review_updates
      = first_report\<lparr> operatorComments := Some ''checked'', reportStatus := Reviewed \<rparr>"
    by (simp add: spread_updates_def or_original_def review_updates_def no_updates_def
        first_report_def)
  from update_report [of "[first_report]" "''var-7''" review_updates] absent
  have a: "updateVideoAnalysisReport ''var-7'' review_updates [first_report]
       = (Inl ''Report not found for update.'', [first_report])"
    by blast
  from update_report [of "[first_report, first_report]" "''var-1000''" review_updates] first
  have b: "length (snd (updateVideoAnalysisReport ''var-1000'' review_updates
                     [first_report, first_report])) = length [first_report, first_report]
      \<and> (\<forall>j < length [first_report, first_report]. j \<noteq> 0 \<longrightarrow>
           snd (updateVideoAnalysisReport ''var-1000'' review_updates
                  [first_report, first_report]) ! j = [first_report, first_report] ! j)"
    by blast
  have c: "updateVideoAnalysisReport ''var-1000'' review_updates [first_report, first_report]
       = (Inr (first_report\<lparr> operatorComments := Some ''checked'', reportStatus := Reviewed \<rparr>),
          [first_report\<lparr> operatorComments := Some ''checked'', reportStatus := Reviewed \<rparr>,
           first_report])"
    using update_present [of 0 "[first_report, first_report]" "''var-1000''" review_updates]
      first merged
    by simp
  from absent a b c show ?thesis
    by (simp add: first_report_def)
qed


section \<open>Parsing: theorems\<close>

text \<open>
  C2, as amended. For every raw text on which \<open>JSON.parse\<close> throws or returns \<open>null\<close>,
  the parse step ends in its \<open>catch\<close> and produces a result whose error is the
  parse-failure description, whose violations list is empty and whose rawResponse is
  the raw text. A value that \<open>JSON.parse\<close> does return is not checked against the
  schema: when its error is set (a non-empty string) it is kept with its violations
  list defaulting to the empty list where it has none, and otherwise it is passed on
  as decoded. So the object that \<open>analyzeUploadedVideo\<close> substitutes for a reply that is
  not valid JSON passes through unchanged, with its error set, no violations and the
  reply as rawResponse.
\<close>

theorem parse_step_recovers:
  "(decoded = SyntaxError \<or> decoded = JsonNull \<longrightarrow>
      parseGeminiJson decoded raw = parse_failure_result raw)
   \<and> res_error (parse_failure_result raw) = Some ''Failed to parse analysis result.''
   \<and> truthy (res_error (parse_failure_result raw))
   \<and> res_violations (parse_failure_result raw) = Some []
   \<and> res_rawResponse (parse_failure_result raw) = Some raw
   \<and> (truthy (res_error parsed) \<longrightarrow>
        parseGeminiJson (JsonValue parsed) raw
          = parsed\<lparr> res_violations := Some (violations_or_empty parsed) \<rparr>)
   \<and> (\<not> truthy (res_error parsed) \<longrightarrow> parseGeminiJson (JsonValue parsed) raw = parsed)
   \<and> parseGeminiJson (JsonValue (invalid_json_fallback responseText)) reply
       = invalid_json_fallback responseText
   \<and> truthy (res_error (invalid_json_fallback responseText))
   \<and> res_violations (invalid_json_fallback responseText) = Some []
   \<and> res_rawResponse (invalid_json_fallback responseText) = Some responseText"
  by (auto simp: parseGeminiJson_def parse_failure_result_def invalid_json_fallback_def truthy_def
      violations_or_empty_def split: option.splits)

theorem parse_step_recovers_witness:
  "res_error (parseGeminiJson SyntaxError ''not json'') = Some ''Failed to parse analysis result.''
   \<and> res_violations (parseGeminiJson SyntaxError ''not json'') = Some []
   \<and> res_rawResponse (parseGeminiJson SyntaxError ''not json'') = Some ''not json''
   \<and> res_rawResponse (parseGeminiJson JsonNull ''null'') = Some ''null''
   \<and> truthy (res_error api_key_error)
   \<and> parseGeminiJson (JsonValue api_key_error) ''{...}''
       = api_key_error\<lparr> res_violations := Some [] \<rparr>
   \<and> \<not> truthy (res_error clean_result)
   \<and> parseGeminiJson (JsonValue clean_result) ''{...}'' = clean_result"
proof -
  have e: "truthy (res_error api_key_error)" "violations_or_empty api_key_error = []"
    by (simp_all add: api_key_error_def empty_object_def truthy_def violations_or_empty_def)
  have c: "\<not> truthy (res_error clean_result)"
    by (simp add: clean_result_def truthy_def)
  from parse_step_recovers [of SyntaxError "''not json''"]
    parse_step_recovers [of JsonNull "''null''"]
    parse_step_recovers [where parsed = api_key_error and raw = "''{...}''"]
    parse_step_recovers [where parsed = clean_result and raw = "''{...}''"]
    e c
  show ?thesis
    by (simp add: parse_failure_result_def)
qed

text \<open>
  C2 as stated fails: the text \<open>{}\<close> is valid JSON without the required
  \<open>violations\<close> array, so it does not decode as the expected schema, and the parse step
  hands the empty object on as it is: no error, no violations list, no rawResponse.
\<close>

theorem parse_step_counterexample:
  "\<not> decodes_as_schema (JsonValue empty_object)
   \<and> parseGeminiJson (JsonValue empty_object) ''{}'' = empty_object
   \<and> res_error (parseGeminiJson (JsonValue empty_object) ''{}'') = None
   \<and> res_violations (parseGeminiJson (JsonValue empty_object) ''{}'') \<noteq> Some []
   \<and> res_rawResponse (parseGeminiJson (JsonValue empty_object) ''{}'') \<noteq> Some ''{}''"
  by (simp add: decodes_as_schema_def parseGeminiJson_def empty_object_def truthy_def)

section \<open>Saving: theorems\<close>

lemma no_violations_iff: "no_violations r \<longleftrightarrow> violations_or_empty r = []"
  by (simp add: no_violations_def violations_or_empty_def split: option.splits)

lemma handleSaveReport_new:
  assumes "selectedReportForViewing s = None" "analysisResult s = Some r"
    "selectedFile s = Some f" "uploadedFileDetails s = Some d"
  shows "handleSaveReport env s st =
     (if truthy (res_error r) \<and> no_violations r then (CannotSaveCriticalErrors, st)
      else (ReportSaved (fst (addVideoAnalysisReport (addClock env) (reportToSave env s f d r) st)),
            st @ [fst (addVideoAnalysisReport (addClock env) (reportToSave env s f d r) st)]))"
  using assms by (simp add: handleSaveReport_def addVideoAnalysisReport_def Let_def)

lemma handleSaveReport_no_file:
  assumes "selectedReportForViewing s = None"
    "selectedFile s = None \<or> uploadedFileDetails s = None"
  shows "handleSaveReport env s st =
     (if (case analysisResult s of
            None \<Rightarrow> False
          | Some r \<Rightarrow> truthy (res_error r) \<and> violations_or_empty r = [])
      then (CannotSaveCriticalErrors, st) else (NoNewAnalysisToSave, st))"
  using assms by (auto simp: handleSaveReport_def no_violations_iff split: option.splits)

lemma handleSaveReport_no_result:
  assumes "selectedReportForViewing s = None" "analysisResult s = None"
  shows "handleSaveReport env s st = (NoNewAnalysisToSave, st)"
  using assms by (simp add: handleSaveReport_def)

text \<open>
  C1, as amended. While no historical report is being viewed and a selected file and
  its upload details are present, saving an analysis result is rejected exactly when
  its error is set (a non-empty string, as the code tests it) and its violations list
  is empty or absent, and the rejected save leaves the store unchanged; in every other
  case the save proceeds and appends one report, carrying the result's violations,
  summary and score, to the store. The Save button is disabled on the same condition.
  Without a selected file or without upload details the save is rejected whatever the
  result holds (with the critical-error notice on the same condition, else with the
  notice that there is nothing to save), and so it is without any result; the store is
  unchanged.
\<close>

theorem save_gate:
  "(selectedReportForViewing s = None \<and> analysisResult s = Some r
      \<and> selectedFile s = Some f \<and> uploadedFileDetails s = Some d \<longrightarrow>
      (fst (handleSaveReport env s st) = CannotSaveCriticalErrors)
           = (truthy (res_error r) \<and> violations_or_empty r = [])
       \<and> (truthy (res_error r) \<and> violations_or_empty r = [] \<longrightarrow>
            snd (handleSaveReport env s st) = st)
       \<and> (\<not> (truthy (res_error r) \<and> violations_or_empty r = []) \<longrightarrow>
            (\<exists>saved. handleSaveReport env s st = (ReportSaved saved, st @ [saved])
               \<and> violations saved = violations_or_empty r
               \<and> summary saved = res_summary r \<and> safetyScore saved = res_safetyScore r))
       \<and> saveButtonDisabled s = (truthy (res_error r) \<and> violations_or_empty r = []))
   \<and> (selectedReportForViewing s = None
        \<and> (selectedFile s = None \<or> uploadedFileDetails s = None) \<longrightarrow>
        (fst (handleSaveReport env s st) = CannotSaveCriticalErrors
           \<or> fst (handleSaveReport env s st) = NoNewAnalysisToSave)
        \<and> (fst (handleSaveReport env s st) = CannotSaveCriticalErrors)
            = (case analysisResult s of
                 None \<Rightarrow> False
               | Some r' \<Rightarrow> truthy (res_error r') \<and> violations_or_empty r' = [])
        \<and> snd (handleSaveReport env s st) = st)
   \<and> (selectedReportForViewing s = None \<and> analysisResult s = None \<longrightarrow>
        handleSaveReport env s st = (NoNewAnalysisToSave, st))"
proof (intro conjI impI)
  assume a: "selectedReportForViewing s = None \<and> analysisResult s = Some r
      \<and> selectedFile s = Some f \<and> uploadedFileDetails s = Some d"
  then have new: "handleSaveReport env s st =
     (if truthy (res_error r) \<and> no_violations r then (CannotSaveCriticalErrors, st)
      else (ReportSaved (fst (addVideoAnalysisReport (addClock env) (reportToSave env s f d r) st)),
            st @ [fst (addVideoAnalysisReport (addClock env) (reportToSave env s f d r) st)]))"
    by (simp add: handleSaveReport_new)
  show "(fst (handleSaveReport env s st) = CannotSaveCriticalErrors)
           = (truthy (res_error r) \<and> violations_or_empty r = [])"
    by (simp add: new no_violations_iff)
  show "snd (handleSaveReport env s st) = st"
    if "truthy (res_error r) \<and> violations_or_empty r = []"
    using that by (simp add: new no_violations_iff)
  show "\<exists>saved. handleSaveReport env s st = (ReportSaved saved, st @ [saved])
               \<and> violations saved = violations_or_empty r
               \<and> summary saved = res_summary r \<and> safetyScore saved = res_safetyScore r"
    if "\<not> (truthy (res_error r) \<and> violations_or_empty r = [])"
    using that
    by (simp add: new no_violations_iff addVideoAnalysisReport_def reportToSave_def Let_def)
  show "saveButtonDisabled s = (truthy (res_error r) \<and> violations_or_empty r = [])"
    using a by (simp add: saveButtonDisabled_def no_violations_iff)
next
  assume b: "selectedReportForViewing s = None
        \<and> (selectedFile s = None \<or> uploadedFileDetails s = None)"
  then have rejected: "handleSaveReport env s st =
     (if (case analysisResult s of
            None \<Rightarrow> False
          | Some r \<Rightarrow> truthy (res_error r) \<and> violations_or_empty r = [])
      then (CannotSaveCriticalErrors, st) else (NoNewAnalysisToSave, st))"
    by (simp add: handleSaveReport_no_file)
  show "fst (handleSaveReport env s st) = CannotSaveCriticalErrors
           \<or> fst (handleSaveReport env s st) = NoNewAnalysisToSave"
    by (simp add: rejected)
  show "(fst (handleSaveReport env s st) = CannotSaveCriticalErrors)
            = (case analysisResult s of
                 None \<Rightarrow> False
               | Some r' \<Rightarrow> truthy (res_error r') \<and> violations_or_empty r' = [])"
    by (simp add: rejected)
  show "snd (handleSaveReport env s st) = st"
    by (simp add: rejected)
next
  assume "selectedReportForViewing s = None \<and> analysisResult s = None"
  then show "handleSaveReport env s st = (NoNewAnalysisToSave, st)"
    by (simp add: handleSaveReport_no_result)
qed

theorem save_gate_witness:
  "fst (handleSaveReport save_env_1001 (state_with (Some ''a.mp4'') partial_result) [first_report])
     \<noteq> CannotSaveCriticalErrors
   \<and> truthy (res_error partial_result)
   \<and> violations_or_empty partial_result = [violation_at_10]
   \<and> length (snd (handleSaveReport save_env_1001 (state_with (Some ''a.mp4'') partial_result)
                    [first_report])) = 2
   \<and> fst (handleSaveReport save_env_1001
            (state_with (Some ''a.mp4'') (parse_failure_result ''not json'')) [first_report])
       = CannotSaveCriticalErrors
   \<and> snd (handleSaveReport save_env_1001
            (state_with (Some ''a.mp4'') (parse_failure_result ''not json'')) [first_report])
       = [first_report]
   \<and> selectedFile (state_with None partial_result) = None
   \<and> fst (handleSaveReport save_env_1001 (state_with None partial_result) [first_report])
       = NoNewAnalysisToSave
   \<and> snd (handleSaveReport save_env_1001 (state_with None partial_result) [first_report])
       = [first_report]"
proof -
  have partial: "truthy (res_error partial_result)"
    "violations_or_empty partial_result = [violation_at_10]"
    by (simp_all add: partial_result_def truthy_def violations_or_empty_def)
  have failed: "truthy (res_error (parse_failure_result ''not json''))"
    "violations_or_empty (parse_failure_result ''not json'') = []"
    by (simp_all add: parse_failure_result_def truthy_def violations_or_empty_def)
  have st: "selectedReportForViewing (state_with chosen x) = None"
    "analysisResult (state_with chosen x) = Some x"
    "selectedFile (state_with chosen x) = chosen"
    "uploadedFileDetails (state_with chosen x) = Some upload_details" for chosen x
    by (simp_all add: state_with_def)
  from save_gate [where s = "state_with (Some ''a.mp4'') partial_result" and r = partial_result
      and f = "''a.mp4''" and d = upload_details and env = save_env_1001
      and st = "[first_report]"] st partial
  have a: "fst (handleSaveReport save_env_1001 (state_with (Some ''a.mp4'') partial_result)
                 [first_report]) \<noteq> CannotSaveCriticalErrors
      \<and> length (snd (handleSaveReport save_env_1001 (state_with (Some ''a.mp4'') partial_result)
                    [first_report])) = 2"
    by auto
  from save_gate [where s = "state_with (Some ''a.mp4'') (parse_failure_result ''not json'')"
      and r = "parse_failure_result ''not json''"
      and f = "''a.mp4''" and d = upload_details and env = save_env_1001
      and st = "[first_report]"] st failed
  have b: "fst (handleSaveReport save_env_1001
            (state_with (Some ''a.mp4'') (parse_failure_result ''not json'')) [first_report])
       = CannotSaveCriticalErrors
   \<and> snd (handleSaveReport save_env_1001
            (state_with (Some ''a.mp4'') (parse_failure_result ''not json'')) [first_report])
       = [first_report]"
    by simp
  from save_gate [where s = "state_with None partial_result" and env = save_env_1001
      and st = "[first_report]"] st partial
  have c: "fst (handleSaveReport save_env_1001 (state_with None partial_result) [first_report])
       = NoNewAnalysisToSave
   \<and> snd (handleSaveReport save_env_1001 (state_with None partial_result) [first_report])
       = [first_report]"
    by auto
  from a b c partial st show ?thesis by simp
qed

text \<open>
  C1 as stated fails: with a result that has no error and one violation, but no
  selected file (the file input was changed to a file that is not a video after the
  analysis), the save is rejected by the handler's second guard and the store is
  unchanged.
\<close>

theorem save_gate_counterexample:
  "res_error clean_result = None
   \<and> violations_or_empty clean_result = [violation_at_10]
   \<and> \<not> saveButtonDisabled (state_with None clean_result)
   \<and> handleSaveReport save_env_1001 (state_with None clean_result) [first_report]
       = (NoNewAnalysisToSave, [first_report])"
  by (simp add: clean_result_def violations_or_empty_def saveButtonDisabled_def state_with_def
      handleSaveReport_def truthy_def no_violations_def)

section \<open>Frame capture: theorems\<close>

text \<open>
  C6. When the seek completes (\<open>seeked\<close> fires) on a video whose native width or height
  is zero, the capture resolves to \<open>null\<close>: it does not reject, whatever the rest of
  the element's state and whichever way the call reached the seek.
\<close>

theorem zero_dimension_soft_failure:
  assumes "seekSignal b = Seeked" "videoWidth v = 0 \<or> videoHeight v = 0"
  shows "fst (proceedWithCapture b v t) = Resolved None
       \<and> fst (captureFrameAtTime b (Some v) t) = Resolved None"
  using assms
  by (auto simp: captureFrameAtTime_def proceedWithCapture_def issue_seek_def settle_seek_def
      Let_def pause_def split: prod.splits)

theorem zero_dimension_soft_failure_witness:
  "seekSignal seeked_browser = Seeked
   \<and> videoHeight (playing_video\<lparr> videoHeight := 0 \<rparr>) = 0
   \<and> fst (captureFrameAtTime seeked_browser (Some (playing_video\<lparr> videoHeight := 0 \<rparr>)) 10)
       = Resolved None
   \<and> fst (captureFrameAtTime seeked_browser (Some playing_video) 10)
       = Resolved (Some ''data:image/jpeg;base64,BBBB'')"
proof -
  have h: "seekSignal seeked_browser = Seeked"
    "videoWidth (playing_video\<lparr> videoHeight := 0 \<rparr>) = 0
       \<or> videoHeight (playing_video\<lparr> videoHeight := 0 \<rparr>) = 0"
    by (simp_all add: seeked_browser_def)
  have "fst (captureFrameAtTime seeked_browser (Some playing_video) 10)
       = Resolved (Some ''data:image/jpeg;base64,BBBB'')"
    by (simp add: captureFrameAtTime_def proceedWithCapture_def issue_seek_def settle_seek_def
        Let_def pause_def seeked_browser_def playing_video_def HAVE_METADATA_def)
  with zero_dimension_soft_failure [OF h, of 10] h(1) show ?thesis by simp
qed









text \<open>
  At a seek time that is not finite the call that reaches the seek leaves the video
  paused, connected or not: from the promise executor it rejects with the \<open>TypeError\<close>,
  from the \<open>loadedmetadata\<close> listener it leaves the promise unsettled.
\<close>

lemma non_finite_seek_leaves_paused:
  "(HAVE_METADATA \<le> readyState v \<longrightarrow>
      captureFrameAtAnyTime b (Some v) NonFiniteTime
        = (Some (Rejected ''TypeError''), Some (v\<lparr> paused := True \<rparr>)))
   \<and> (readyState v < HAVE_METADATA \<and> currentSrc v \<noteq> [] \<and> loadedmetadata b \<longrightarrow>
        captureFrameAtAnyTime b (Some v) NonFiniteTime = (None, Some (v\<lparr> paused := True \<rparr>)))"
  by (auto simp: captureFrameAtAnyTime_def issue_seek_non_finite_def pause_def Let_def
      HAVE_METADATA_def HAVE_NOTHING_def)

section \<open>Binding thumbnails: theorems\<close>

lemma bind_thumbnail_log:
  "captureLog (snd (bind_thumbnail capture v s)) =
     captureLog s @ map startTimeSeconds (violationsWithoutThumbnails [v])"
  by (simp add: bind_thumbnail_def violationsWithoutThumbnails_def
      split: prod.splits capture_outcome.splits)

lemma thumbnail_loop_Cons:
  "thumbnail_loop capture (v # vs) s =
     (fst (bind_thumbnail capture v s)
        # fst (thumbnail_loop capture vs (snd (bind_thumbnail capture v s))),
      snd (thumbnail_loop capture vs (snd (bind_thumbnail capture v s))))"
  by (simp split: prod.splits)

lemma thumbnail_loop_log:
  "captureLog (snd (thumbnail_loop capture vs s)) =
     captureLog s @ map startTimeSeconds (violationsWithoutThumbnails vs)"
proof (induction vs arbitrary: s)
  case Nil
  then show ?case by (simp add: violationsWithoutThumbnails_def)
next
  case (Cons v vs)
  have "captureLog (snd (thumbnail_loop capture (v # vs) s)) =
        captureLog (snd (thumbnail_loop capture vs (snd (bind_thumbnail capture v s))))"
    by (simp only: thumbnail_loop_Cons snd_conv)
  also have "\<dots> = captureLog (snd (bind_thumbnail capture v s))
                 @ map startTimeSeconds (violationsWithoutThumbnails vs)"
    by (rule Cons.IH)
  finally show ?case
    by (simp add: bind_thumbnail_log violationsWithoutThumbnails_def)
qed

lemma thumbnail_loop_length: "length (fst (thumbnail_loop capture vs s)) = length vs"
proof (induction vs arbitrary: s)
  case Nil
  then show ?case by simp
next
  case (Cons v vs)
  then show ?case by (simp only: thumbnail_loop_Cons fst_conv length_Cons)
qed

lemma thumbnail_loop_append:
  "thumbnail_loop capture (xs @ ys) s =
     (fst (thumbnail_loop capture xs s)
        @ fst (thumbnail_loop capture ys (snd (thumbnail_loop capture xs s))),
      snd (thumbnail_loop capture ys (snd (thumbnail_loop capture xs s))))"
  by (induction xs arbitrary: s) (auto split: prod.splits)

lemma thumbnail_loop_at:
  assumes "i < length vs"
  shows "thumbnail_loop capture vs s =
     (fst (thumbnail_loop capture (take i vs) s)
        @ fst (bind_thumbnail capture (vs ! i) (snd (thumbnail_loop capture (take i vs) s)))
        # fst (thumbnail_loop capture (drop (Suc i) vs)
                (snd (bind_thumbnail capture (vs ! i)
                        (snd (thumbnail_loop capture (take i vs) s))))),
      snd (thumbnail_loop capture (drop (Suc i) vs)
             (snd (bind_thumbnail capture (vs ! i)
                     (snd (thumbnail_loop capture (take i vs) s))))))"
proof -
  have "vs = take i vs @ (vs ! i # drop (Suc i) vs)"
    using assms by (simp add: id_take_nth_drop)
  then have "thumbnail_loop capture vs s
      = thumbnail_loop capture (take i vs @ (vs ! i # drop (Suc i) vs)) s"
    by simp
  also have "\<dots> =
     (fst (thumbnail_loop capture (take i vs) s)
        @ fst (thumbnail_loop capture (vs ! i # drop (Suc i) vs)
                 (snd (thumbnail_loop capture (take i vs) s))),
      snd (thumbnail_loop capture (vs ! i # drop (Suc i) vs)
             (snd (thumbnail_loop capture (take i vs) s))))"
    by (rule thumbnail_loop_append)
  finally show ?thesis
    by (simp only: thumbnail_loop_Cons fst_conv snd_conv)
qed

lemma bind_thumbnail_failed:
  assumes "thumbnailDataUrl v = None"
    and "fst (capture (player s) (startTimeSeconds v)) = Resolved None
         \<or> (\<exists>e. fst (capture (player s) (startTimeSeconds v)) = Rejected e)"
  shows "fst (bind_thumbnail capture v s) = v\<lparr> thumbnailDataUrl := Some None \<rparr>"
  using assms by (auto simp: bind_thumbnail_def split: prod.splits capture_outcome.splits)

lemma bind_thumbnail_player:
  "thumbnailDataUrl v = None \<Longrightarrow>
     player (snd (bind_thumbnail capture v s)) = snd (capture (player s) (startTimeSeconds v))"
  by (auto simp: bind_thumbnail_def split: prod.splits capture_outcome.splits)

lemma bind_thumbnail_skip:
  "thumbnailDataUrl v \<noteq> None \<Longrightarrow> bind_thumbnail capture v s = (v, s)"
  by (auto simp: bind_thumbnail_def)

text \<open>
  C3. For every capture function, player and violation list: the loop returns a list
  of the same length; it invokes the capture once for each pending violation, in list
  order, at that violation's \<open>startTimeSeconds\<close>, each call on the player the previous
  call left (the log of calls is the start times of the pending violations). For every
  index \<open>i\<close> the run splits into the run on the violations before \<open>i\<close>, the step for
  violation \<open>i\<close> on the state that run left, and the run on the violations after \<open>i\<close>
  on the state the step left: the results before \<open>i\<close> are those of the run on the prefix
  alone, so later steps never change them, and the violations after \<open>i\<close> are processed
  whatever the capture for \<open>i\<close> did. A violation that already has a thumbnail state is
  left as it is; for a pending one, a \<open>null\<close> result or a rejection stores \<open>null\<close>.
\<close>

theorem thumbnails_in_order:
  "length (fst (generateAllThumbnails capture vs w)) = length vs
   \<and> captureLog (snd (generateAllThumbnails capture vs w))
       = map startTimeSeconds (violationsWithoutThumbnails vs)
   \<and> (\<forall>i < length vs.
        (let before = thumbnail_loop capture (take i vs) (loop_start w);
             this = bind_thumbnail capture (vs ! i) (snd before);
             after = thumbnail_loop capture (drop (Suc i) vs) (snd this)
         in generateAllThumbnails capture vs w = (fst before @ fst this # fst after, snd after)
            \<and> (thumbnailDataUrl (vs ! i) \<noteq> None \<longrightarrow> this = (vs ! i, snd before))
            \<and> (thumbnailDataUrl (vs ! i) = None \<longrightarrow>
                 player (snd this)
                   = snd (capture (player (snd before)) (startTimeSeconds (vs ! i)))
                 \<and> (fst (capture (player (snd before)) (startTimeSeconds (vs ! i)))
                       = Resolved None
                      \<or> (\<exists>e. fst (capture (player (snd before)) (startTimeSeconds (vs ! i)))
                                = Rejected e)
                    \<longrightarrow> fst this = (vs ! i)\<lparr> thumbnailDataUrl := Some None \<rparr>))))"
proof (intro conjI)
  show "length (fst (generateAllThumbnails capture vs w)) = length vs"
    by (simp add: generateAllThumbnails_def thumbnail_loop_length)
  show "captureLog (snd (generateAllThumbnails capture vs w))
       = map startTimeSeconds (violationsWithoutThumbnails vs)"
    by (simp add: generateAllThumbnails_def thumbnail_loop_log loop_start_def)
  show "\<forall>i < length vs.
        (let before = thumbnail_loop capture (take i vs) (loop_start w);
             this = bind_thumbnail capture (vs ! i) (snd before);
             after = thumbnail_loop capture (drop (Suc i) vs) (snd this)
         in generateAllThumbnails capture vs w = (fst before @ fst this # fst after, snd after)
            \<and> (thumbnailDataUrl (vs ! i) \<noteq> None \<longrightarrow> this = (vs ! i, snd before))
            \<and> (thumbnailDataUrl (vs ! i) = None \<longrightarrow>
                 player (snd this)
                   = snd (capture (player (snd before)) (startTimeSeconds (vs ! i)))
                 \<and> (fst (capture (player (snd before)) (startTimeSeconds (vs ! i)))
                       = Resolved None
                      \<or> (\<exists>e. fst (capture (player (snd before)) (startTimeSeconds (vs ! i)))
                                = Rejected e)
                    \<longrightarrow> fst this = (vs ! i)\<lparr> thumbnailDataUrl := Some None \<rparr>)))"
  proof (intro allI impI)
    fix i assume i: "i < length vs"
    show "(let before = thumbnail_loop capture (take i vs) (loop_start w);
             this = bind_thumbnail capture (vs ! i) (snd before);
             after = thumbnail_loop capture (drop (Suc i) vs) (snd this)
         in generateAllThumbnails capture vs w = (fst before @ fst this # fst after, snd after)
            \<and> (thumbnailDataUrl (vs ! i) \<noteq> None \<longrightarrow> this = (vs ! i, snd before))
            \<and> (thumbnailDataUrl (vs ! i) = None \<longrightarrow>
                 player (snd this)
                   = snd (capture (player (snd before)) (startTimeSeconds (vs ! i)))
                 \<and> (fst (capture (player (snd before)) (startTimeSeconds (vs ! i)))
                       = Resolved None
                      \<or> (\<exists>e. fst (capture (player (snd before)) (startTimeSeconds (vs ! i)))
                                = Rejected e)
                    \<longrightarrow> fst this = (vs ! i)\<lparr> thumbnailDataUrl := Some None \<rparr>)))"
      unfolding Let_def generateAllThumbnails_def
      using thumbnail_loop_at [OF i, of capture "loop_start w"]
        bind_thumbnail_failed [of "vs ! i" capture
          "snd (thumbnail_loop capture (take i vs) (loop_start w))"]
        bind_thumbnail_player [of "vs ! i" capture
          "snd (thumbnail_loop capture (take i vs) (loop_start w))"]
        bind_thumbnail_skip [of "vs ! i" capture
          "snd (thumbnail_loop capture (take i vs) (loop_start w))"]
      by blast
  qed
qed

lemma capture_times_out:
  "player_capture first_seek_times_out (Some playing_video, 0) 10
     = (Rejected ''Timeout during frame capture seeking.'',
        (Some (playing_video\<lparr> currentTime := 10 \<rparr>), Suc 0))"
  by (simp add: player_capture_def first_seek_times_out_def captureFrameAtTime_def
      proceedWithCapture_def issue_seek_def settle_seek_def resume_playback_def play_def pause_def
      Let_def playing_video_def seeked_browser_def HAVE_METADATA_def)

lemma capture_succeeds:
  "player_capture first_seek_times_out (Some (playing_video\<lparr> currentTime := 10 \<rparr>), Suc 0) 30
     = (Resolved (Some ''data:image/jpeg;base64,BBBB''),
        (Some (playing_video\<lparr> currentTime := 30 \<rparr>), Suc (Suc 0)))"
  by (simp add: player_capture_def first_seek_times_out_def captureFrameAtTime_def
      proceedWithCapture_def issue_seek_def settle_seek_def resume_playback_def play_def pause_def
      Let_def playing_video_def seeked_browser_def HAVE_METADATA_def)

lemma three_violations_run:
  "generateAllThumbnails (player_capture first_seek_times_out) three_violations
       (Some playing_video, 0)
     = ([violation_at_10\<lparr> thumbnailDataUrl := Some None \<rparr>, violation_at_20,
         violation_at_30\<lparr> thumbnailDataUrl := Some (Some ''data:image/jpeg;base64,BBBB'') \<rparr>],
        \<lparr> thumbnailsGeneratedCount = 1, captureLog = [10, 30],
          player = (Some (playing_video\<lparr> currentTime := 30 \<rparr>), Suc (Suc 0)) \<rparr>)"
  by (simp add: generateAllThumbnails_def loop_start_def three_violations_def bind_thumbnail_def
      capture_times_out capture_succeeds violation_at_10_def violation_at_20_def
      violation_at_30_def truthy_def)

theorem thumbnails_in_order_witness:
  "thumbnailDataUrl (three_violations ! 0) = None
   \<and> fst (player_capture first_seek_times_out (Some playing_video, 0)
            (startTimeSeconds (three_violations ! 0)))
       = Rejected ''Timeout during frame capture seeking.''
   \<and> fst (bind_thumbnail (player_capture first_seek_times_out) (three_violations ! 0)
            (loop_start (Some playing_video, 0)))
       = (three_violations ! 0)\<lparr> thumbnailDataUrl := Some None \<rparr>
   \<and> captureLog (snd (generateAllThumbnails (player_capture first_seek_times_out)
                         three_violations (Some playing_video, 0))) = [10, 30]
   \<and> fst (generateAllThumbnails (player_capture first_seek_times_out) three_violations
            (Some playing_video, 0))
       = [violation_at_10\<lparr> thumbnailDataUrl := Some None \<rparr>, violation_at_20,
          violation_at_30\<lparr> thumbnailDataUrl := Some (Some ''data:image/jpeg;base64,BBBB'') \<rparr>]"
proof -
  let ?cap = "player_capture first_seek_times_out"
  let ?w = "(Some playing_video, 0::nat)"
  let ?before = "thumbnail_loop ?cap (take 0 three_violations) (loop_start ?w)"
  note T = thumbnails_in_order [of ?cap three_violations ?w, unfolded Let_def]
  have len: "0 < length three_violations"
    by (simp add: three_violations_def)
  have before: "snd ?before = loop_start ?w"
    by simp
  have pending: "thumbnailDataUrl (three_violations ! 0) = None"
    by (simp add: three_violations_def violation_at_10_def)
  have rejected: "fst (?cap (player (snd ?before)) (startTimeSeconds (three_violations ! 0)))
      = Rejected ''Timeout during frame capture seeking.''"
    by (simp add: loop_start_def three_violations_def violation_at_10_def capture_times_out)
  from T len pending rejected
  have "fst (bind_thumbnail ?cap (three_violations ! 0) (snd ?before))
      = (three_violations ! 0)\<lparr> thumbnailDataUrl := Some None \<rparr>"
    by blast
  then have stored: "fst (bind_thumbnail ?cap (three_violations ! 0) (loop_start ?w))
      = (three_violations ! 0)\<lparr> thumbnailDataUrl := Some None \<rparr>"
    by (simp only: before)
  from T have "captureLog (snd (generateAllThumbnails ?cap three_violations ?w))
      = map startTimeSeconds (violationsWithoutThumbnails three_violations)"
    by blast
  then have log: "captureLog (snd (generateAllThumbnails ?cap three_violations ?w)) = [10, 30]"
    by (simp add: violationsWithoutThumbnails_def three_violations_def violation_at_10_def
        violation_at_20_def violation_at_30_def)
  from rejected have rejected': "fst (?cap ?w (startTimeSeconds (three_violations ! 0)))
      = Rejected ''Timeout during frame capture seeking.''"
    by (simp add: loop_start_def)
  from pending rejected' stored log three_violations_run show ?thesis
    by simp
qed

section \<open>Audio inspection: theorems\<close>

text \<open>
  When \<open>detectAudioIssues\<close> reports nothing: the channel count is truthy, the sample
  rate is falsy or not below 8000, and the codec name is truthy.
\<close>

lemma detectAudioIssues_None_iff:
  "detectAudioIssues a = None \<longleftrightarrow>
     \<not> falsy (channels a)
     \<and> (falsy (sample_rate a) \<or> \<not> below_8000 (parseInt (sample_rate a)))
     \<and> \<not> falsy (codec_name a)"
  by (auto simp: detectAudioIssues_def Let_def falsy_def)

text \<open>
  On numeric descriptors with a non-zero sample rate the rule is the one of the
  specification: flagged exactly when there is no channel, the rate is below 8000 or
  the codec is absent.
\<close>

lemma detectAudioIssues_numeric:
  assumes "channels a = JNum c" "sample_rate a = JNum r" "r \<noteq> 0"
  shows "detectAudioIssues a = None \<longleftrightarrow> c \<noteq> 0 \<and> 8000 \<le> r \<and> \<not> falsy (codec_name a)"
  using assms
  by (auto simp: detectAudioIssues_None_iff falsy_def parseInt_def below_8000_def)

lemma zero_channels_flagged: "channels a = JNum 0 \<Longrightarrow> detectAudioIssues a \<noteq> None"
  by (simp only: detectAudioIssues_None_iff) (simp add: falsy_def)

lemma repaired_not_flagged: "detectAudioIssues repaired_audio_stream = None"
  by (simp add: detectAudioIssues_def repaired_audio_stream_def Let_def falsy_def
      parseInt_def below_8000_def)

lemma parseInt_string_examples:
  "parseInt_string ''1000'' = Some 1000
   \<and> parseInt_string ([CHR 0x20, CHR 0xC2, CHR 0xA0, CHR 0x09] @ ''-0x1F Hz'') = Some (- 31)
   \<and> parseInt_string ''N/A'' = None"
  by (simp add: parseInt_string_def Let_def trimStart.simps leading_white_space_def
      StrWhiteSpaceChar_def decimal_digit_def hex_digit_def digits_value_def)

lemma scenario_D:
  "detectAudioIssues broken_audio
     = Some [''Invalid channel count (0 channels)'', ''Low sample rate (1000Hz < 8kHz)'',
             ''Missing audio codec'']"
  by (simp add: detectAudioIssues_def broken_audio_def Let_def falsy_def parseInt_def
      below_8000_def to_string_def string_of_int_def string_of_nat.simps)

text \<open>
  C4, the code at the failing input. A stream with two channels, the codec \<open>aac\<close> and
  a sample rate reported as the number 0 has a sample rate below 8000, and
  \<open>detectAudioIssues\<close> reports no issue for it: the guard
  \<open>audioStream.sample_rate && ...\<close> reads the number 0 as an absent rate and skips the
  comparison.
\<close>

theorem zero_sample_rate_not_flagged:
  "sample_rate silent_stereo_low_rate = JNum 0
   \<and> below_8000 (parseInt (sample_rate silent_stereo_low_rate))
   \<and> channels silent_stereo_low_rate = JNum 2
   \<and> codec_name silent_stereo_low_rate = JStr ''aac''
   \<and> detectAudioIssues silent_stereo_low_rate = None"
  by (simp add: detectAudioIssues_def silent_stereo_low_rate_def Let_def falsy_def parseInt_def
      below_8000_def)

section \<open>The ingest pipeline: theorems\<close>

lemma processVideo_keeps_input:
  "inputPath \<noteq> outputPath \<Longrightarrow>
     snd (processVideo mt fs inputPath outputPath d) inputPath = fs inputPath"
  by (simp add: processVideo_def split: sum.splits)

lemma processVideo_writes_output:
  "ffmpeg mt (fs inputPath) d = Inr written \<Longrightarrow>
     processVideo mt fs inputPath outputPath d = (Inr outputPath, fs(outputPath \<mapsto> written))"
  by (simp add: processVideo_def)

lemma fix_audio_stream_keeps_input:
  "input_file \<noteq> output_file \<Longrightarrow> input_file \<noteq> output_file @ ''.tmp'' \<Longrightarrow>
     snd (fix_audio_stream f fs input_file output_file d) input_file = fs input_file"
  by (simp add: fix_audio_stream_def Let_def split: sum.splits)

lemma analyzeVideo_needsProcessing:
  "analyzeVideo mt fs p = Inr a \<Longrightarrow> needsProcessing a"
  by (auto simp: analyzeVideo_def needsGeminiProcessing_def split: sum.splits)

lemma processVideoFile_deletes_upload:
  assumes "fst (processVideoFile mt srv f) = Inr res"
  shows "files (snd (processVideoFile mt srv f)) (upload_path f) = None"
proof (cases "analyzeVideo mt (files srv) (upload_path f)")
  case (Inl m)
  with assms show ?thesis by (simp add: processVideoFile_def Let_def)
next
  case (Inr a)
  then have np: "needsProcessing a" by (rule analyzeVideo_needsProcessing)
  from assms Inr np show ?thesis
    by (auto simp: processVideoFile_def Let_def split: if_splits prod.splits sum.splits)
qed

lemma files_mark_error: "files (mark_error srv vid m) = files srv"
  by (simp add: mark_error_def split: option.splits)

lemma processVideoFile_failure_keeps_upload:
  assumes "fst (processVideoFile mt srv f) = Inl m"
  shows "files (snd (processVideoFile mt srv f)) (upload_path f) = files srv (upload_path f)"
proof (cases "analyzeVideo mt (files srv) (upload_path f)")
  case (Inl e)
  then show ?thesis by (simp add: processVideoFile_def Let_def files_mark_error)
next
  case (Inr a)
  then have np: "needsProcessing a" by (rule analyzeVideo_needsProcessing)
  from assms Inr np show ?thesis
    by (auto simp: processVideoFile_def Let_def files_mark_error processVideo_def
        split: if_splits prod.splits sum.splits)
qed

lemma fix_audio_stream_writes_output:
  "f (fs input_file) d = Inr written \<Longrightarrow>
     fix_audio_stream f fs input_file output_file d
       = (Inr (), (fs(output_file \<mapsto> written))(output_file @ ''.tmp'' := None))"
  by (auto simp: fix_audio_stream_def Let_def fun_eq_iff)

lemma processVideoFile_files:
  assumes "fst (processVideoFile mt srv f) = Inr res"
  shows "\<exists>written. ffmpeg mt (files srv (upload_path f)) (duration (p_analysis res)) = Inr written
     \<and> p_filePath res
         = processedDir mt @ ''/'' @ uuidv4 mt @ ''_processed'' @ extname mt (originalname f)
     \<and> files (snd (processVideoFile mt srv f))
         = ((files srv)(p_filePath res \<mapsto> written))(upload_path f := None)"
proof (cases "analyzeVideo mt (files srv) (upload_path f)")
  case (Inl m)
  with assms show ?thesis by (simp add: processVideoFile_def Let_def)
next
  case (Inr a)
  then have np: "needsProcessing a" by (rule analyzeVideo_needsProcessing)
  from assms Inr np show ?thesis
    by (auto simp: processVideoFile_def Let_def processVideo_def
        split: if_splits prod.splits sum.splits)
qed

text \<open>
  C5, as amended. The backend repair \<open>processVideo\<close>, when its ffmpeg run succeeds,
  creates or overwrites the file at \<open>outputPath\<close> with what ffmpeg wrote, and, when
  \<open>outputPath\<close> differs from \<open>inputPath\<close>, leaves the file at \<open>inputPath\<close> as it was: the
  content is unchanged and the file still exists. The command-line repair
  \<open>fix_audio_stream\<close> has ffmpeg write the \<open>.tmp\<close> companion of the output file and
  renames it: when that ffmpeg run succeeds the output file holds what ffmpeg wrote
  and the companion is gone, and a file at \<open>inputPath\<close> that is neither the output
  file nor its \<open>.tmp\<close> companion is unchanged. The surrounding ingest pipeline deletes
  the file at \<open>inputPath\<close> once the repair and the bookkeeping have succeeded: the file
  system is then the one before with ffmpeg's output at the processed path and no
  file at \<open>inputPath\<close>. When the pipeline fails, the file at \<open>inputPath\<close> is as it was.
\<close>

theorem repair_keeps_input:
  "(inputPath \<noteq> outputPath \<longrightarrow>
      snd (processVideo mt fs inputPath outputPath d) inputPath = fs inputPath)
   \<and> (ffmpeg mt (fs inputPath) d = Inr written \<longrightarrow>
        processVideo mt fs inputPath outputPath d = (Inr outputPath, fs(outputPath \<mapsto> written)))
   \<and> (inputPath \<noteq> outputPath \<and> inputPath \<noteq> outputPath @ ''.tmp'' \<longrightarrow>
        snd (fix_audio_stream f fs inputPath outputPath d) inputPath = fs inputPath)
   \<and> (f (fs inputPath) d = Inr copied \<longrightarrow>
        fix_audio_stream f fs inputPath outputPath d
          = (Inr (), (fs(outputPath \<mapsto> copied))(outputPath @ ''.tmp'' := None)))
   \<and> (fst (processVideoFile mt srv upl) = Inr res \<longrightarrow>
        files (snd (processVideoFile mt srv upl)) (upload_path upl) = None
        \<and> (\<exists>out. ffmpeg mt (files srv (upload_path upl)) (duration (p_analysis res)) = Inr out
              \<and> p_filePath res
                  = processedDir mt @ ''/'' @ uuidv4 mt @ ''_processed''
                      @ extname mt (originalname upl)
              \<and> files (snd (processVideoFile mt srv upl))
                  = ((files srv)(p_filePath res \<mapsto> out))(upload_path upl := None)))
   \<and> (fst (processVideoFile mt srv upl) = Inl message \<longrightarrow>
        files (snd (processVideoFile mt srv upl)) (upload_path upl)
          = files srv (upload_path upl))"
  using processVideo_keeps_input [of inputPath outputPath mt fs d]
    processVideo_writes_output [of mt fs inputPath d written outputPath]
    fix_audio_stream_keeps_input [of inputPath outputPath f fs d]
    fix_audio_stream_writes_output [of f fs inputPath d copied outputPath]
    processVideoFile_deletes_upload [of mt srv upl res]
    processVideoFile_files [of mt srv upl res]
    processVideoFile_failure_keeps_upload [of mt srv upl message]
  by blast

lemma sample_run:
  "processVideoFile sample_tools server_with_upload temp_upload
     = (Inr \<lparr> p_videoId = ''0b5f'', p_processedFilename = ''0b5f_processed.mp4'',
              p_filePath = ''uploads/processed/0b5f_processed.mp4'',
              p_analysis =
                \<lparr> duration = 5,
                  audioStream = Some \<lparr> codec = JUndefined, a_channels = JNum 0,
                    sampleRate = JNum 1000, channelLayout = JUndefined,
                    hasIssues = detectAudioIssues broken_audio \<rparr>,
                  needsProcessing = True \<rparr>,
              p_issues = Some (detectAudioIssues broken_audio) \<rparr>,
        \<lparr> files = [''uploads/processed/0b5f_processed.mp4'' \<mapsto> ''raw+silent-aac''],
          videos = [''0b5f'' \<mapsto>
            \<lparr> filename = ''0b5f_processed.mp4'', original_filename = ''site.mp4'',
              file_size = 3, row_duration = 5, mime_type = ''video/mp4'',
              processing_status = ''completed'',
              processed_filename = Some ''0b5f_processed.mp4'',
              storage_path = Some ''uploads/processed/0b5f_processed.mp4'',
              metadata = AnalysisJson
                \<lparr> duration = 5,
                  audioStream = Some \<lparr> codec = JUndefined, a_channels = JNum 0,
                    sampleRate = JNum 1000, channelLayout = JUndefined,
                    hasIssues = detectAudioIssues broken_audio \<rparr>,
                  needsProcessing = True \<rparr> \<rparr>] \<rparr>)"
  by (simp add: processVideoFile_def Let_def analyzeVideo_def processVideo_def sample_tools_def
      server_with_upload_def temp_upload_def needsGeminiProcessing_def broken_audio_def
      fun_upd_twist)

theorem repair_keeps_input_witness:
  "snd (processVideo sample_tools (files server_with_upload) ''uploads/temp/77_site.mp4''
          ''uploads/processed/0b5f_processed.mp4'' 5) ''uploads/temp/77_site.mp4'' = Some ''raw''
   \<and> snd (processVideo sample_tools (files server_with_upload) ''uploads/temp/77_site.mp4''
          ''uploads/processed/0b5f_processed.mp4'' 5) ''uploads/processed/0b5f_processed.mp4''
       = Some ''raw+silent-aac''
   \<and> snd (fix_audio_stream (ffmpeg sample_tools) (files server_with_upload)
          ''uploads/temp/77_site.mp4'' ''out.mp4'' 5) ''uploads/temp/77_site.mp4'' = Some ''raw''
   \<and> snd (fix_audio_stream (ffmpeg sample_tools) (files server_with_upload)
          ''uploads/temp/77_site.mp4'' ''out.mp4'' 5) ''out.mp4'' = Some ''raw+silent-aac''
   \<and> snd (fix_audio_stream (ffmpeg sample_tools) (files server_with_upload)
          ''uploads/temp/77_site.mp4'' ''out.mp4'' 5) ''out.mp4.tmp'' = None
   \<and> files (snd (processVideoFile sample_tools server_with_upload temp_upload))
        (upload_path temp_upload) = None
   \<and> files (snd (processVideoFile sample_tools server_with_upload temp_upload))
        ''uploads/processed/0b5f_processed.mp4'' = Some ''raw+silent-aac''"
proof -
  let ?res = "projr (fst (processVideoFile sample_tools server_with_upload temp_upload))"
  have written: "ffmpeg sample_tools (files server_with_upload ''uploads/temp/77_site.mp4'') 5
      = Inr ''raw+silent-aac''"
    by (simp add: sample_tools_def server_with_upload_def)
  have ok: "fst (processVideoFile sample_tools server_with_upload temp_upload) = Inr ?res"
    by (simp add: sample_run)
  have distinct: "''uploads/temp/77_site.mp4'' \<noteq> ''uploads/processed/0b5f_processed.mp4''"
    "''uploads/temp/77_site.mp4'' \<noteq> ''out.mp4''"
    "''uploads/temp/77_site.mp4'' \<noteq> ''out.mp4'' @ ''.tmp''"
    by simp_all
  note R = repair_keeps_input [where mt = sample_tools and fs = "files server_with_upload"
      and inputPath = "''uploads/temp/77_site.mp4''" and d = 5
      and srv = server_with_upload and upl = temp_upload
      and written = "''raw+silent-aac''" and copied = "''raw+silent-aac''"
      and f = "ffmpeg sample_tools" and res = ?res]
  from R [where outputPath = "''uploads/processed/0b5f_processed.mp4''"] distinct(1) written
  have a: "snd (processVideo sample_tools (files server_with_upload) ''uploads/temp/77_site.mp4''
          ''uploads/processed/0b5f_processed.mp4'' 5) ''uploads/temp/77_site.mp4''
        = files server_with_upload ''uploads/temp/77_site.mp4''"
    and b: "processVideo sample_tools (files server_with_upload) ''uploads/temp/77_site.mp4''
          ''uploads/processed/0b5f_processed.mp4'' 5
        = (Inr ''uploads/processed/0b5f_processed.mp4'',
           (files server_with_upload)(''uploads/processed/0b5f_processed.mp4'' \<mapsto>
              ''raw+silent-aac''))"
    by blast+
  from R [where outputPath = "''out.mp4''"] distinct(2,3) written
  have c: "snd (fix_audio_stream (ffmpeg sample_tools) (files server_with_upload)
          ''uploads/temp/77_site.mp4'' ''out.mp4'' 5) ''uploads/temp/77_site.mp4''
        = files server_with_upload ''uploads/temp/77_site.mp4''"
    and c': "fix_audio_stream (ffmpeg sample_tools) (files server_with_upload)
          ''uploads/temp/77_site.mp4'' ''out.mp4'' 5
        = (Inr (), ((files server_with_upload)(''out.mp4'' \<mapsto> ''raw+silent-aac''))
                     (''out.mp4'' @ ''.tmp'' := None))"
    by blast+
  from R [where outputPath = "''out.mp4''"] ok
  have e: "files (snd (processVideoFile sample_tools server_with_upload temp_upload))
        (upload_path temp_upload) = None"
    by blast
  from R [where outputPath = "''out.mp4''"] ok
  obtain out where out: "ffmpeg sample_tools (files server_with_upload (upload_path temp_upload))
        (duration (p_analysis ?res)) = Inr out"
    and fp: "p_filePath ?res
        = processedDir sample_tools @ ''/'' @ uuidv4 sample_tools @ ''_processed''
            @ extname sample_tools (originalname temp_upload)"
    and fl: "files (snd (processVideoFile sample_tools server_with_upload temp_upload))
        = ((files server_with_upload)(p_filePath ?res \<mapsto> out))(upload_path temp_upload := None)"
    by blast
  from out have "out = ''raw+silent-aac''"
    by (simp add: sample_tools_def server_with_upload_def temp_upload_def)
  with fp fl
  have g: "files (snd (processVideoFile sample_tools server_with_upload temp_upload))
        ''uploads/processed/0b5f_processed.mp4'' = Some ''raw+silent-aac''"
    by (simp add: sample_tools_def temp_upload_def)
  from a b c c' e g show ?thesis
    by (simp add: server_with_upload_def)
qed

text \<open>
  C5 as stated fails: after the ingest pipeline has completed, the uploaded file it
  was given no longer exists; only the processed copy does.
\<close>

theorem repair_keeps_input_counterexample:
  "files server_with_upload (upload_path temp_upload) = Some ''raw''
   \<and> \<not> isl (fst (processVideoFile sample_tools server_with_upload temp_upload))
   \<and> files (snd (processVideoFile sample_tools server_with_upload temp_upload))
        (upload_path temp_upload) = None
   \<and> files (snd (processVideoFile sample_tools server_with_upload temp_upload))
        ''uploads/processed/0b5f_processed.mp4'' = Some ''raw+silent-aac''"
  by (simp add: sample_run) (simp add: server_with_upload_def temp_upload_def)


end
